theory Spec2Isabelle
  imports Main "HOL-Library.Sublist"
begin

section \<open>The option model of \<^verbatim>\<open>configure.py\<close>\<close>

text \<open>
  The script is one linear pass: parse the command line, pick a default Riemann solver,
  test for incompatible options, fill two dictionaries, substitute them into two templates
  and write two files. Every stage is embedded below as a function of its own, in the
  order of the script. Strings are kept as strings, since the script compares and
  concatenates them; a \<^verbatim>\<open>raise\<close> is a value \<open>Inl e\<close>.
\<close>

datatype error =
    ParseError
  | SystemExit string
  | KeyError string
  | IOError string
  | ReError

definition bindE :: "error + 'a \<Rightarrow> ('a \<Rightarrow> error + 'b) \<Rightarrow> error + 'b" where
  "bindE m f = (case m of Inl e \<Rightarrow> Inl e | Inr x \<Rightarrow> f x)"

text \<open>
  The command line as argparse sees it: an option with a \<^verbatim>\<open>choices\<close> list is
  either absent (\<open>None\<close>, the default is taken) or given with some value, which argparse
  tests against the list; the \<^verbatim>\<open>store_true\<close> switches are booleans, and
  \<^verbatim>\<open>--include\<close>, \<^verbatim>\<open>--lib\<close> collect their values in order.
\<close>

record cmdline =
  opt_prob :: "string option"
  opt_coord :: "string option"
  opt_eos :: "string option"
  opt_flux :: "string option"
  opt_order :: "string option"
  opt_fint :: "string option"
  opt_b :: bool
  opt_s :: bool
  opt_g :: bool
  opt_t :: bool
  opt_sh :: bool
  opt_debug :: bool
  opt_mpi :: bool
  opt_omp :: bool
  opt_hdf5 :: bool
  opt_hdf5_path :: "string option"
  opt_cxx :: "string option"
  opt_ccmd :: "string option"
  opt_include :: "string list"
  opt_lib :: "string list"

text \<open>The dictionary \<^verbatim>\<open>args\<close> returned by \<^verbatim>\<open>vars(parser.parse_args())\<close>.\<close>

record args =
  arg_prob :: string
  arg_coord :: string
  arg_eos :: string
  arg_flux :: string
  arg_order :: string
  arg_fint :: string
  arg_b :: bool
  arg_s :: bool
  arg_g :: bool
  arg_t :: bool
  arg_sh :: bool
  arg_debug :: bool
  arg_mpi :: bool
  arg_omp :: bool
  arg_hdf5 :: bool
  arg_hdf5_path :: string
  arg_cxx :: string
  arg_ccmd :: "string option"
  arg_include :: "string list"
  arg_lib :: "string list"

definition coord_choices :: "string list" where
  "coord_choices = [''cartesian'', ''cylindrical'', ''spherical_polar'', ''minkowski'',
     ''sinusoidal'', ''tilted'', ''schwarzschild'', ''kerr-schild'', ''gr_user'']"

definition eos_choices :: "string list" where
  "eos_choices = [''adiabatic'', ''isothermal'']"

definition flux_choices :: "string list" where
  "flux_choices = [''default'', ''hlle'', ''hllc'', ''hlld'', ''roe'', ''llf'']"

definition order_choices :: "string list" where
  "order_choices = [''plm'']"

definition fint_choices :: "string list" where
  "fint_choices = [''vl2'']"

definition cxx_choices :: "string list" where
  "cxx_choices = [''g++'', ''icc'', ''cray'', ''bgxl'', ''icc-phi'']"

text \<open>
  argparse tests a value given on the command line against \<^verbatim>\<open>choices\<close> and exits
  on a value outside it; a default is taken as it is.
\<close>

definition check_choice :: "string list \<Rightarrow> string \<Rightarrow> string option \<Rightarrow> error + string" where
  "check_choice choices dflt given =
     (case given of
        None \<Rightarrow> Inr dflt
      | Some v \<Rightarrow> if v \<in> set choices then Inr v else Inl ParseError)"

text \<open>
  \<open>pgen_choices\<close> is the list the script builds from the files of \<^verbatim>\<open>src/pgen/\<close>; it
  depends on the directory, so it is an argument here.
\<close>

definition parse_args :: "string list \<Rightarrow> cmdline \<Rightarrow> error + args" where
  "parse_args pgen_choices cl =
     bindE (check_choice pgen_choices ''shock_tube'' (opt_prob cl)) (\<lambda>prob.
     bindE (check_choice coord_choices ''cartesian'' (opt_coord cl)) (\<lambda>coord.
     bindE (check_choice eos_choices ''adiabatic'' (opt_eos cl)) (\<lambda>eos.
     bindE (check_choice flux_choices ''default'' (opt_flux cl)) (\<lambda>flux.
     bindE (check_choice order_choices ''plm'' (opt_order cl)) (\<lambda>order.
     bindE (check_choice fint_choices ''vl2'' (opt_fint cl)) (\<lambda>fint.
     bindE (check_choice cxx_choices ''g++'' (opt_cxx cl)) (\<lambda>cxx.
     Inr \<lparr> arg_prob = prob, arg_coord = coord, arg_eos = eos, arg_flux = flux,
           arg_order = order, arg_fint = fint,
           arg_b = opt_b cl, arg_s = opt_s cl, arg_g = opt_g cl, arg_t = opt_t cl,
           arg_sh = opt_sh cl, arg_debug = opt_debug cl, arg_mpi = opt_mpi cl,
           arg_omp = opt_omp cl, arg_hdf5 = opt_hdf5 cl,
           arg_hdf5_path = (case opt_hdf5_path cl of None \<Rightarrow> [] | Some p \<Rightarrow> p),
           arg_cxx = cxx, arg_ccmd = opt_ccmd cl,
           arg_include = opt_include cl, arg_lib = opt_lib cl \<rparr>)))))))"

text \<open>The command line with no option at all.\<close>

definition no_options :: cmdline where
  "no_options = \<lparr> opt_prob = None, opt_coord = None, opt_eos = None, opt_flux = None,
     opt_order = None, opt_fint = None, opt_b = False, opt_s = False, opt_g = False,
     opt_t = False, opt_sh = False, opt_debug = False, opt_mpi = False, opt_omp = False,
     opt_hdf5 = False, opt_hdf5_path = None, opt_cxx = None, opt_ccmd = None,
     opt_include = [], opt_lib = [] \<rparr>"

section \<open>Step 2: default flux and incompatible arguments\<close>

definition set_default_flux :: "args \<Rightarrow> args" where
  "set_default_flux a =
     (if arg_flux a = ''default'' then
        (if arg_g a then a\<lparr>arg_flux := ''hlle''\<rparr>
         else if arg_b a then a\<lparr>arg_flux := ''hlld''\<rparr>
         else if arg_eos a = ''isothermal'' then a\<lparr>arg_flux := ''hlle''\<rparr>
         else a\<lparr>arg_flux := ''hllc''\<rparr>)
      else a)"

definition check_compatibility :: "args \<Rightarrow> error + unit" where
  "check_compatibility a =
     (if arg_flux a = ''hllc'' \<and> arg_eos a = ''isothermal'' then
        Inl (SystemExit ''### CONFIGURE ERROR: HLLC flux cannot be used with isothermal EOS'')
      else if arg_flux a = ''hllc'' \<and> arg_b a then
        Inl (SystemExit ''### CONFIGURE ERROR: HLLC flux cannot be used with MHD'')
      else if arg_flux a = ''hlld'' \<and> \<not> arg_b a then
        Inl (SystemExit ''### CONFIGURE ERROR: HLLD flux can only be used with MHD'')
      else if arg_s a \<and> arg_g a then
        Inl (SystemExit (''### CONFIGURE ERROR: ''
          @ ''GR implies SR; the -s option is restricted to pure SR''))
      else if arg_t a \<and> \<not> arg_g a then
        Inl (SystemExit ''### CONFIGURE ERROR: Frame transformations only apply to GR'')
      else if arg_g a \<and> \<not> arg_t a \<and> arg_flux a \<notin> set [''llf'', ''hlle''] then
        Inl (SystemExit (''### CONFIGURE ERROR: Frame transformations required for ''
          @ arg_flux a))
      else if arg_g a \<and> arg_coord a \<in> set [''cartesian'', ''cylindrical'', ''spherical_polar''] then
        Inl (SystemExit (''### CONFIGURE ERROR: ''
          @ ''GR cannot be used with '' @ arg_coord a @ '' coordinates''))
      else if \<not> arg_g a
          \<and> arg_coord a \<notin> set [''cartesian'', ''cylindrical'', ''spherical_polar''] then
        Inl (SystemExit (''### CONFIGURE ERROR: ''
          @ arg_coord a @ '' coordinates only apply to GR''))
      else if arg_eos a = ''isothermal'' then
        (if arg_s a \<or> arg_g a then
           Inl (SystemExit (''### CONFIGURE ERROR: ''
             @ ''Isothermal EOS is incompatible with relativity''))
         else Inr ())
      else Inr ())"

subsection \<open>The nine rules as the specification lists them\<close>

text \<open>
  Each rule is a predicate that holds when the rule is violated, paired with the text the
  script prints for it; \<open>compat_rules\<close> is the list in the order of the specification.
\<close>

definition flat_coords :: "string list" where
  "flat_coords = [''cartesian'', ''cylindrical'', ''spherical_polar'']"

definition rule1 :: "args \<Rightarrow> bool" where
  "rule1 a = (arg_flux a = ''hllc'' \<and> arg_eos a = ''isothermal'')"

definition rule2 :: "args \<Rightarrow> bool" where
  "rule2 a = (arg_flux a = ''hllc'' \<and> arg_b a)"

definition rule3 :: "args \<Rightarrow> bool" where
  "rule3 a = (arg_flux a = ''hlld'' \<and> \<not> arg_b a)"

definition rule4 :: "args \<Rightarrow> bool" where
  "rule4 a = (arg_s a \<and> arg_g a)"

definition rule5 :: "args \<Rightarrow> bool" where
  "rule5 a = (arg_t a \<and> \<not> arg_g a)"

definition rule6 :: "args \<Rightarrow> bool" where
  "rule6 a = (arg_g a \<and> \<not> arg_t a \<and> \<not> (arg_flux a = ''llf'' \<or> arg_flux a = ''hlle''))"

definition rule7 :: "args \<Rightarrow> bool" where
  "rule7 a = (arg_g a \<and> arg_coord a \<in> set flat_coords)"

definition rule8 :: "args \<Rightarrow> bool" where
  "rule8 a = (\<not> arg_g a \<and> arg_coord a \<notin> set flat_coords)"

definition rule9 :: "args \<Rightarrow> bool" where
  "rule9 a = (arg_eos a = ''isothermal'' \<and> (arg_s a \<or> arg_g a))"

definition msg1 :: "args \<Rightarrow> string" where
  "msg1 a = ''### CONFIGURE ERROR: HLLC flux cannot be used with isothermal EOS''"

definition msg2 :: "args \<Rightarrow> string" where
  "msg2 a = ''### CONFIGURE ERROR: HLLC flux cannot be used with MHD''"

definition msg3 :: "args \<Rightarrow> string" where
  "msg3 a = ''### CONFIGURE ERROR: HLLD flux can only be used with MHD''"

definition msg4 :: "args \<Rightarrow> string" where
  "msg4 a = ''### CONFIGURE ERROR: GR implies SR; the -s option is restricted to pure SR''"

definition msg5 :: "args \<Rightarrow> string" where
  "msg5 a = ''### CONFIGURE ERROR: Frame transformations only apply to GR''"

definition msg6 :: "args \<Rightarrow> string" where
  "msg6 a = ''### CONFIGURE ERROR: Frame transformations required for '' @ arg_flux a"

definition msg7 :: "args \<Rightarrow> string" where
  "msg7 a = ''### CONFIGURE ERROR: GR cannot be used with '' @ arg_coord a @ '' coordinates''"

definition msg8 :: "args \<Rightarrow> string" where
  "msg8 a = ''### CONFIGURE ERROR: '' @ arg_coord a @ '' coordinates only apply to GR''"

definition msg9 :: "args \<Rightarrow> string" where
  "msg9 a = ''### CONFIGURE ERROR: Isothermal EOS is incompatible with relativity''"

definition compat_rules :: "((args \<Rightarrow> bool) \<times> (args \<Rightarrow> string)) list" where
  "compat_rules = [(rule1, msg1), (rule2, msg2), (rule3, msg3), (rule4, msg4), (rule5, msg5),
     (rule6, msg6), (rule7, msg7), (rule8, msg8), (rule9, msg9)]"

text \<open>The first rule of a list that the options violate, with its message.\<close>

fun first_violated :: "((args \<Rightarrow> bool) \<times> (args \<Rightarrow> string)) list \<Rightarrow> args \<Rightarrow> string option" where
  "first_violated [] a = None"
| "first_violated ((r, m) # rs) a = (if r a then Some (m a) else first_violated rs a)"

section \<open>Step 3: the two dictionaries\<close>

text \<open>
  A Python dictionary keeps its keys in the order of their first insertion, and the
  substitution loop of step 4 runs over the items in that order: a dictionary is an
  association list, an assignment replaces the value in place or appends the new key.
\<close>

type_synonym dict = "(string \<times> string) list"

fun dict_set :: "string \<Rightarrow> string \<Rightarrow> dict \<Rightarrow> dict" where
  "dict_set k v [] = [(k, v)]"
| "dict_set k v ((k', v') # d) = (if k' = k then (k, v) # d else (k', v') # dict_set k v d)"

text \<open>\<^verbatim>\<open>d[k]\<close> raises \<^verbatim>\<open>KeyError\<close> on a key that was never set.\<close>

definition dict_get :: "dict \<Rightarrow> string \<Rightarrow> error + string" where
  "dict_get d k = (case map_of d k of None \<Rightarrow> Inl (KeyError k) | Some v \<Rightarrow> Inr v)"

text \<open>\<^verbatim>\<open>d[k] += s\<close> reads \<^verbatim>\<open>d[k]\<close> first.\<close>

definition dict_add :: "string \<Rightarrow> string \<Rightarrow> dict \<Rightarrow> error + dict" where
  "dict_add k s d = bindE (dict_get d k) (\<lambda>v. Inr (dict_set k (v @ s) d))"

record config =
  definitions :: dict
  makefile_options :: dict

definition def_set :: "string \<Rightarrow> string \<Rightarrow> config \<Rightarrow> config" where
  "def_set k v c = c\<lparr>definitions := dict_set k v (definitions c)\<rparr>"

definition mk_set :: "string \<Rightarrow> string \<Rightarrow> config \<Rightarrow> config" where
  "mk_set k v c = c\<lparr>makefile_options := dict_set k v (makefile_options c)\<rparr>"

definition def_add :: "string \<Rightarrow> string \<Rightarrow> config \<Rightarrow> error + config" where
  "def_add k s c = bindE (dict_add k s (definitions c)) (\<lambda>d. Inr (c\<lparr>definitions := d\<rparr>))"

definition mk_add :: "string \<Rightarrow> string \<Rightarrow> config \<Rightarrow> error + config" where
  "mk_add k s c =
     bindE (dict_add k s (makefile_options c)) (\<lambda>d. Inr (c\<lparr>makefile_options := d\<rparr>))"

text \<open>\<^verbatim>\<open>definitions[k] = makefile_options[k] = v\<close>\<close>

definition both_set :: "string \<Rightarrow> string \<Rightarrow> string \<Rightarrow> config \<Rightarrow> config" where
  "both_set kd km v c = mk_set km v (def_set kd v c)"

definition initial_config :: config where
  "initial_config = \<lparr> definitions = [], makefile_options = [(''LOADER_FLAGS'', [])] \<rparr>"

definition set_prob :: "args \<Rightarrow> config \<Rightarrow> config" where
  "set_prob a c = both_set ''PROBLEM'' ''PROBLEM_FILE'' (arg_prob a) c"

definition set_coord :: "args \<Rightarrow> config \<Rightarrow> config" where
  "set_coord a c = both_set ''COORDINATE_SYSTEM'' ''COORDINATES_FILE'' (arg_coord a) c"

definition set_eos :: "args \<Rightarrow> config \<Rightarrow> config" where
  "set_eos a c =
     (let c1 = def_set ''NON_BAROTROPIC_EOS''
                 (if arg_eos a = ''adiabatic'' then ''1'' else ''0'') c;
          c2 = mk_set ''EOS_FILE'' (arg_eos a) c1;
          c3 = (if arg_eos a = ''adiabatic'' then def_set ''NHYDRO_VARIABLES'' ''5'' c2 else c2)
      in (if arg_eos a = ''isothermal'' then def_set ''NHYDRO_VARIABLES'' ''4'' c3 else c3))"

definition set_flux :: "args \<Rightarrow> config \<Rightarrow> config" where
  "set_flux a c = both_set ''RSOLVER'' ''RSOLVER_FILE'' (arg_flux a) c"

definition set_order :: "args \<Rightarrow> config \<Rightarrow> config" where
  "set_order a c = both_set ''RECONSTRUCT'' ''RECONSTRUCT_FILE'' (arg_order a) c"

definition set_fint :: "args \<Rightarrow> config \<Rightarrow> config" where
  "set_fint a c = both_set ''HYDRO_INTEGRATOR'' ''HYDRO_INT_FILE'' (arg_fint a) c"

definition set_b :: "args \<Rightarrow> config \<Rightarrow> error + config" where
  "set_b a c =
     (if arg_b a then
        bindE (mk_add ''EOS_FILE'' ''_mhd'' (def_set ''MAGNETIC_FIELDS_ENABLED'' ''1'' c)) (\<lambda>c1.
        bindE (let c2 = mk_set ''RSOLVER_DIR'' ''mhd/'' (def_set ''NFIELD_VARIABLES'' ''3'' c1)
               in (if arg_flux a = ''hlle'' \<or> arg_flux a = ''llf'' \<or> arg_flux a = ''roe''
                   then mk_add ''RSOLVER_FILE'' ''_mhd'' c2 else Inr c2)) (\<lambda>c3.
        if arg_eos a = ''adiabatic'' then Inr (def_set ''NWAVE_VALUE'' ''7'' c3)
        else (let c4 = def_set ''NWAVE_VALUE'' ''6'' c3
              in (if arg_flux a = ''hlld'' then mk_add ''RSOLVER_FILE'' ''_iso'' c4
                  else Inr c4))))
      else
        bindE (mk_add ''EOS_FILE'' ''_hydro'' (def_set ''MAGNETIC_FIELDS_ENABLED'' ''0'' c)) (\<lambda>c1.
        let c2 = mk_set ''RSOLVER_DIR'' ''hydro/'' (def_set ''NFIELD_VARIABLES'' ''0'' c1)
        in (if arg_eos a = ''adiabatic'' then Inr (def_set ''NWAVE_VALUE'' ''5'' c2)
            else Inr (def_set ''NWAVE_VALUE'' ''4'' c2))))"

definition set_relativity :: "args \<Rightarrow> config \<Rightarrow> error + config" where
  "set_relativity a c =
     (let c1 = def_set ''RELATIVISTIC_DYNAMICS''
                 (if arg_s a \<or> arg_g a then ''1'' else ''0'') c;
          c2 = def_set ''GENERAL_RELATIVITY'' (if arg_g a then ''1'' else ''0'') c1;
          c3 = def_set ''FRAME_TRANSFORMATIONS'' (if arg_t a then ''1'' else ''0'') c2
      in bindE (if arg_s a then
                  bindE (mk_add ''EOS_FILE'' ''_sr'' c3) (mk_add ''RSOLVER_FILE'' ''_rel'')
                else Inr c3) (\<lambda>c4.
         if arg_g a then
           bindE (mk_add ''EOS_FILE'' ''_gr'' c4) (\<lambda>c5.
           bindE (mk_add ''RSOLVER_FILE'' ''_rel'' c5) (\<lambda>c6.
           if \<not> arg_t a then mk_add ''RSOLVER_FILE'' ''_no_transform'' c6 else Inr c6))
         else Inr c4))"

definition set_sh :: "args \<Rightarrow> config \<Rightarrow> config" where
  "set_sh a c =
     (if arg_sh a then def_set ''SHEARING_BOX'' ''1'' c else def_set ''SHEARING_BOX'' ''0'' c)"

text \<open>The five blocks of \<^verbatim>\<open>--cxx\<close>, one after the other as in the script.\<close>

definition cxx_block ::
  "string \<Rightarrow> string \<Rightarrow> string \<Rightarrow> string \<Rightarrow> string \<Rightarrow> string \<Rightarrow> config \<Rightarrow> config" where
  "cxx_block choice cmd ppflags cflags ldflags libflags c =
     mk_set ''LIBRARY_FLAGS'' libflags
       (mk_set ''LINKER_FLAGS'' ldflags
         (mk_set ''COMPILER_FLAGS'' cflags
           (mk_set ''PREPROCESSOR_FLAGS'' ppflags
             (both_set ''COMPILER_COMMAND'' ''COMPILER_COMMAND'' cmd
               (def_set ''COMPILER_CHOICE'' choice c)))))"

definition bgxl_flags :: string where
  "bgxl_flags = ''-O3 -qhot=level=1:vector -qinline=level=5:auto -qipa=level=1:noobject''
     @ '' -qstrict=subnormals -qmaxmem=150000 -qlanglvl=extended -qsuppress=1500-036''
     @ '' -qsuppress=1540-1401 -qsuppress=1586-083 -qsuppress=1586-233''
     @ '' -qsuppress=1586-267''"

definition set_cxx :: "args \<Rightarrow> config \<Rightarrow> error + config" where
  "set_cxx a c =
     (let c1 = (if arg_cxx a = ''g++'' then
                  cxx_block ''g++'' ''g++'' [] ''-O3 -march=native -ffast-math'' [] [] c
                else c);
          c2 = (if arg_cxx a = ''icc'' then
                  cxx_block ''icc'' ''icc'' [] ''-O3 -xhost -ipo -inline-forceinline'' [] [] c1
                else c1);
          c3 = (if arg_cxx a = ''cray'' then
                  cxx_block ''cray'' ''CC'' [] ''-O3 -h aggress -h vector3 -hfp3''
                    ''-hwp -hpl=obj/lib'' ''-lm'' c2
                else c2)
      in bindE (if arg_cxx a = ''bgxl'' then
                  (let c4 = mk_set ''COMPILER_FLAGS'' bgxl_flags
                              (mk_set ''PREPROCESSOR_FLAGS'' []
                                (both_set ''COMPILER_COMMAND'' ''COMPILER_COMMAND'' ''bgxlc++''
                                  (def_set ''COMPILER_CHOICE'' ''bgxlc++'' c3)))
                   in bindE (dict_get (makefile_options c4) ''COMPILER_FLAGS'') (\<lambda>v.
                      Inr (mk_set ''LIBRARY_FLAGS'' [] (mk_set ''LINKER_FLAGS'' v c4))))
                else Inr c3) (\<lambda>c5.
         Inr (if arg_cxx a = ''icc-phi'' then
                cxx_block ''icc'' ''icc'' [] ''-O3 -xMIC-AVX512 -ipo -inline-forceinline'' [] [] c5
              else c5)))"

definition set_debug :: "args \<Rightarrow> config \<Rightarrow> config" where
  "set_debug a c =
     (if arg_debug a then
        (let c1 = def_set ''DEBUG'' ''DEBUG'' c;
             c2 = (if arg_cxx a = ''g++'' \<or> arg_cxx a = ''icc''
                   then mk_set ''COMPILER_FLAGS'' ''-O0 -g'' c1 else c1);
             c3 = (if arg_cxx a = ''cray'' then mk_set ''COMPILER_FLAGS'' ''-O0'' c2 else c2);
             c4 = (if arg_cxx a = ''bgxl''
                   then mk_set ''COMPILER_FLAGS'' ''-O0 -g -qlanglvl=extended'' c3 else c3)
         in (if arg_cxx a = ''icc-phi''
             then mk_set ''COMPILER_FLAGS'' ''-O0 -g -xMIC-AVX512'' c4 else c4))
      else def_set ''DEBUG'' ''NOT_DEBUG'' c)"

definition set_mpi :: "args \<Rightarrow> config \<Rightarrow> error + config" where
  "set_mpi a c =
     (if arg_mpi a then
        (let c1 = def_set ''MPI_OPTION'' ''MPI_PARALLEL'' c;
             c2 = (if arg_cxx a = ''g++'' \<or> arg_cxx a = ''icc'' \<or> arg_cxx a = ''icc-phi''
                   then both_set ''COMPILER_COMMAND'' ''COMPILER_COMMAND'' ''mpicxx'' c1
                   else c1)
         in bindE (if arg_cxx a = ''cray'' then mk_add ''COMPILER_FLAGS'' '' -h mpi1'' c2
                   else Inr c2) (\<lambda>c3.
            Inr (if arg_cxx a = ''bgxl''
                 then both_set ''COMPILER_COMMAND'' ''COMPILER_COMMAND'' ''mpixlcxx'' c3
                 else c3)))
      else Inr (def_set ''MPI_OPTION'' ''NOT_MPI_PARALLEL'' c))"

definition set_omp :: "args \<Rightarrow> config \<Rightarrow> error + config" where
  "set_omp a c =
     (if arg_omp a then
        bindE (let c1 = def_set ''OPENMP_OPTION'' ''OPENMP_PARALLEL'' c
               in (if arg_cxx a = ''g++'' then mk_add ''COMPILER_FLAGS'' '' -fopenmp'' c1
                   else Inr c1)) (\<lambda>c2.
        bindE (if arg_cxx a = ''icc'' \<or> arg_cxx a = ''icc-phi''
               then mk_add ''COMPILER_FLAGS'' '' -openmp'' c2 else Inr c2) (\<lambda>c3.
        bindE (if arg_cxx a = ''cray'' then mk_add ''COMPILER_FLAGS'' '' -homp'' c3
               else Inr c3) (\<lambda>c4.
        if arg_cxx a = ''bgxl'' then
          bindE (def_add ''COMPILER_COMMAND'' ''_r'' c4) (\<lambda>c5.
          bindE (mk_add ''COMPILER_COMMAND'' ''_r'' c5) (\<lambda>c6.
          mk_add ''COMPILER_FLAGS'' '' -qsmp'' c6))
        else Inr c4)))
      else
        bindE (let c1 = def_set ''OPENMP_OPTION'' ''NOT_OPENMP_PARALLEL'' c
               in (if arg_cxx a = ''cray'' then mk_add ''COMPILER_FLAGS'' '' -hnoomp'' c1
                   else Inr c1)) (\<lambda>c2.
        if arg_cxx a = ''icc'' \<or> arg_cxx a = ''icc-phi''
        then mk_add ''COMPILER_FLAGS'' '' -diag-disable 3180'' c2 else Inr c2))"

definition set_hdf5 :: "args \<Rightarrow> config \<Rightarrow> error + config" where
  "set_hdf5 a c =
     (if arg_hdf5 a then
        bindE (let c1 = def_set ''HDF5_OPTION'' ''HDF5OUTPUT'' c
               in (if arg_hdf5_path a \<noteq> [] then
                     bindE (mk_add ''PREPROCESSOR_FLAGS''
                              (''-I'' @ arg_hdf5_path a @ ''/include'') c1)
                       (mk_add ''LINKER_FLAGS'' (''-L'' @ arg_hdf5_path a @ ''/lib''))
                   else Inr c1)) (\<lambda>c2.
        bindE (if arg_cxx a = ''g++'' \<or> arg_cxx a = ''icc'' \<or> arg_cxx a = ''cray''
                  \<or> arg_cxx a = ''icc-phi''
               then mk_add ''LIBRARY_FLAGS'' '' -lhdf5'' c2 else Inr c2) (\<lambda>c3.
        if arg_cxx a = ''bgxl'' then
          bindE (mk_add ''PREPROCESSOR_FLAGS''
                   ('' -D_LARGEFILE_SOURCE -D_LARGEFILE64_SOURCE -D_BSD_SOURCE''
                    @ '' -I/soft/libraries/hdf5/1.10.0/cnk-xl/current/include''
                    @ '' -I/bgsys/drivers/ppcfloor/comm/include'') c3) (\<lambda>c4.
          bindE (mk_add ''LINKER_FLAGS''
                   ('' -L/soft/libraries/hdf5/1.10.0/cnk-xl/current/lib''
                    @ '' -L/soft/libraries/alcf/current/xl/ZLIB/lib'') c4)
            (mk_add ''LIBRARY_FLAGS'' '' -lhdf5 -lz -lm''))
        else Inr c3))
      else Inr (def_set ''HDF5_OPTION'' ''NO_HDF5OUTPUT'' c))"

definition set_ccmd :: "args \<Rightarrow> config \<Rightarrow> config" where
  "set_ccmd a c =
     (case arg_ccmd a of
        None \<Rightarrow> c
      | Some v \<Rightarrow> both_set ''COMPILER_COMMAND'' ''COMPILER_COMMAND'' v c)"

fun add_includes :: "string list \<Rightarrow> config \<Rightarrow> error + config" where
  "add_includes [] c = Inr c"
| "add_includes (include_path # ps) c =
     bindE (mk_add ''COMPILER_FLAGS'' ('' -I'' @ include_path) c) (add_includes ps)"

fun add_libs :: "string list \<Rightarrow> config \<Rightarrow> error + config" where
  "add_libs [] c = Inr c"
| "add_libs (library_path # ps) c =
     bindE (mk_add ''LINKER_FLAGS'' ('' -L'' @ library_path) c) (add_libs ps)"

text \<open>\<^verbatim>\<open>sep.join(xs)\<close>\<close>

fun join :: "string \<Rightarrow> string list \<Rightarrow> string" where
  "join sep [] = []"
| "join sep [x] = x"
| "join sep (x # y # ys) = x @ sep @ join sep (y # ys)"

text \<open>The list comprehension \<^verbatim>\<open>[makefile_options[opt+'_FLAGS'] for opt in ...]\<close>.\<close>

fun lookup_all :: "dict \<Rightarrow> string list \<Rightarrow> error + string list" where
  "lookup_all d [] = Inr []"
| "lookup_all d (k # ks) =
     bindE (dict_get d k) (\<lambda>v. bindE (lookup_all d ks) (\<lambda>vs. Inr (v # vs)))"

definition assemble_flags :: "config \<Rightarrow> error + config" where
  "assemble_flags c =
     bindE (lookup_all (makefile_options c)
              (map (\<lambda>opt. opt @ ''_FLAGS'') [''PREPROCESSOR'', ''COMPILER'', ''LINKER'', ''LIBRARY'']))
       (\<lambda>vs. Inr (def_set ''COMPILER_FLAGS'' (join '' '' vs) c))"

text \<open>The first lines of step 4: every file name ends in \<^verbatim>\<open>.cpp\<close>.\<close>

definition terminate_filenames :: "config \<Rightarrow> error + config" where
  "terminate_filenames c =
     bindE (mk_add ''PROBLEM_FILE'' ''.cpp'' c) (\<lambda>c1.
     bindE (mk_add ''COORDINATES_FILE'' ''.cpp'' c1) (\<lambda>c2.
     bindE (mk_add ''EOS_FILE'' ''.cpp'' c2) (\<lambda>c3.
     bindE (mk_add ''RSOLVER_FILE'' ''.cpp'' c3) (\<lambda>c4.
     bindE (mk_add ''RECONSTRUCT_FILE'' ''.cpp'' c4) (\<lambda>c5.
     mk_add ''HYDRO_INT_FILE'' ''.cpp'' c5)))))"

text \<open>
  Step 3 and the file-name lines of step 4 in the order of the script: the dictionaries as
  the substitution loop finds them.
\<close>

definition resolve :: "args \<Rightarrow> error + config" where
  "resolve a =
     bindE (set_b a (set_fint a (set_order a (set_flux a (set_eos a (set_coord a
              (set_prob a initial_config))))))) (\<lambda>c1.
     bindE (set_relativity a c1) (\<lambda>c2.
     bindE (set_cxx a (set_sh a c2)) (\<lambda>c3.
     bindE (set_mpi a (set_debug a c3)) (\<lambda>c4.
     bindE (set_omp a c4) (\<lambda>c5.
     bindE (set_hdf5 a c5) (\<lambda>c6.
     bindE (add_includes (arg_include a) (set_ccmd a c6)) (\<lambda>c7.
     bindE (add_libs (arg_lib a) c7) (\<lambda>c8.
     bindE (assemble_flags c8) terminate_filenames))))))))"

section \<open>Step 4: substitution and output\<close>

subsection \<open>\<^verbatim>\<open>re.sub\<close> on a literal pattern\<close>

text \<open>
  The script calls \<^verbatim>\<open>re.sub('@KEY@', val, text)\<close>. Every key it ever sets is made
  of capital letters, digits and underscores, so the pattern is a literal string. The
  replacement \<^verbatim>\<open>val\<close> is a template of the \<^verbatim>\<open>re\<close> module: a backslash starts an
  escape, and the module parses the whole template before it looks for a match, raising
  \<^verbatim>\<open>re.error\<close> (or \<^verbatim>\<open>IndexError\<close> for an unknown group name; both are
  \<open>ReError\<close> here) on a bad one. A pattern without groups has only group 0, the whole match.
  The escapes are those of Python 3.7 and later (an unknown escape of a letter is an
  error); group names are read as CPython 3.12 does (decimal digits only). Characters are
  the 8-bit characters of HOL strings.
\<close>

definition oct_digit :: "char \<Rightarrow> bool" where
  "oct_digit c = (c \<in> set ''01234567'')"

definition dec_digit :: "char \<Rightarrow> bool" where
  "dec_digit c = (c \<in> set ''0123456789'')"

definition ascii_letter :: "char \<Rightarrow> bool" where
  "ascii_letter c =
     (c \<in> set ''abcdefghijklmnopqrstuvwxyz'' \<or> c \<in> set ''ABCDEFGHIJKLMNOPQRSTUVWXYZ'')"

definition oct_value :: "string \<Rightarrow> nat" where
  "oct_value ds = foldl (\<lambda>n d. 8 * n + (of_char d - 48)) 0 ds"

definition simple_escape :: "char \<Rightarrow> char option" where
  "simple_escape c =
     (if c = CHR ''a'' then Some (CHR 0x07)
      else if c = CHR ''b'' then Some (CHR 0x08)
      else if c = CHR ''f'' then Some (CHR 0x0C)
      else if c = CHR ''n'' then Some (CHR 0x0A)
      else if c = CHR ''r'' then Some (CHR 0x0D)
      else if c = CHR ''t'' then Some (CHR 0x09)
      else if c = CHR ''v'' then Some (CHR 0x0B)
      else if c = CHR 0x5C then Some (CHR 0x5C)
      else None)"

fun expand_template :: "string \<Rightarrow> string \<Rightarrow> error + string" where
  "expand_template whole [] = Inr []"
| "expand_template whole (c # cs) =
     (if c \<noteq> CHR 0x5C then bindE (expand_template whole cs) (\<lambda>r. Inr (c # r))
      else
        (case cs of
           [] \<Rightarrow> Inl ReError
         | d # ds \<Rightarrow>
             if d = CHR ''g'' then
               (case ds of
                  [] \<Rightarrow> Inl ReError
                | l # ns \<Rightarrow>
                    if l \<noteq> CHR ''<'' then Inl ReError
                    else
                      (let name = takeWhile (\<lambda>x. x \<noteq> CHR ''>'') ns in
                       if length name = length ns \<or> name = [] \<or> \<not> list_all dec_digit name
                          \<or> \<not> list_all (\<lambda>x. x = CHR ''0'') name
                       then Inl ReError
                       else bindE (expand_template whole (drop (Suc (length name)) ns))
                              (\<lambda>r. Inr (whole @ r))))
             else if d = CHR ''0'' then
               (let n = length (takeWhile oct_digit (take 2 ds)) in
                bindE (expand_template whole (drop n ds))
                  (\<lambda>r. Inr (char_of (oct_value (take n ds)) # r)))
             else if dec_digit d then
               (case ds of
                  e # f # fs \<Rightarrow>
                    if oct_digit d \<and> oct_digit e \<and> oct_digit f then
                      (if oct_value [d, e, f] > 255 then Inl ReError
                       else bindE (expand_template whole fs)
                              (\<lambda>r. Inr (char_of (oct_value [d, e, f]) # r)))
                    else Inl ReError
                | _ \<Rightarrow> Inl ReError)
             else
               (case simple_escape d of
                  Some x \<Rightarrow> bindE (expand_template whole ds) (\<lambda>r. Inr (x # r))
                | None \<Rightarrow>
                    if ascii_letter d then Inl ReError
                    else bindE (expand_template whole ds) (\<lambda>r. Inr (c # d # r)))))"

text \<open>
  All matches of the literal pattern, leftmost first and without overlap, are replaced.
  (The empty pattern matches before every character and at the end; the script never
  builds it.)
\<close>

function replace_all :: "string \<Rightarrow> string \<Rightarrow> string \<Rightarrow> string" where
  "replace_all pat r [] = (if pat = [] then r else [])"
| "replace_all pat r (c # cs) =
     (if pat = [] then r @ c # replace_all pat r cs
      else if prefix pat (c # cs) then r @ replace_all pat r (drop (length pat) (c # cs))
      else c # replace_all pat r cs)"
  by pat_completeness auto
termination
  by (relation "measure (\<lambda>(pat, r, text). length text)") auto

definition re_sub :: "string \<Rightarrow> string \<Rightarrow> string \<Rightarrow> error + string" where
  "re_sub pat repl text = bindE (expand_template pat repl) (\<lambda>r. Inr (replace_all pat r text))"

text \<open>The loop \<^verbatim>\<open>for key,val in d.items(): template = re.sub(..., val, template)\<close>.\<close>

fun substitute :: "dict \<Rightarrow> string \<Rightarrow> error + string" where
  "substitute [] template = Inr template"
| "substitute ((key, val) # items) template =
     bindE (re_sub (''@'' @ key @ ''@'') val template) (substitute items)"

subsection \<open>Files\<close>

text \<open>
  The file system holds the text of each file, says which paths cannot be opened for
  writing, and keeps the list of the files opened so far. Opening a file for writing
  replaces its content.
\<close>

datatype mode = ReadMode | WriteMode

record filesystem =
  fs_files :: "string \<Rightarrow> string option"
  fs_protected :: "string \<Rightarrow> bool"
  fs_opened :: "(string \<times> mode) list"

text \<open>
  Python 3 opens a text file with universal newlines: reading turns a carriage return
  followed by a line feed, and a carriage return alone, into one line feed. Writing leaves
  a line feed as it is (as on POSIX systems).
\<close>

fun universal_newlines :: "string \<Rightarrow> string" where
  "universal_newlines [] = []"
| "universal_newlines [c] = [if c = CHR 0x0D then CHR 0x0A else c]"
| "universal_newlines (c # d # ds) =
     (if c = CHR 0x0D \<and> d = CHR 0x0A then CHR 0x0A # universal_newlines ds
      else if c = CHR 0x0D then CHR 0x0A # universal_newlines (d # ds)
      else c # universal_newlines (d # ds))"

definition read_file :: "string \<Rightarrow> filesystem \<Rightarrow> (error + string) \<times> filesystem" where
  "read_file path fs =
     (case fs_files fs path of
        None \<Rightarrow> (Inl (IOError path), fs)
      | Some text \<Rightarrow>
          (Inr (universal_newlines text),
           fs\<lparr>fs_opened := fs_opened fs @ [(path, ReadMode)]\<rparr>))"

definition write_file :: "string \<Rightarrow> string \<Rightarrow> filesystem \<Rightarrow> (error + unit) \<times> filesystem" where
  "write_file path text fs =
     (if fs_protected fs path then (Inl (IOError path), fs)
      else (Inr (), fs\<lparr>fs_files := (fs_files fs)(path \<mapsto> text),
                        fs_opened := fs_opened fs @ [(path, WriteMode)]\<rparr>))"

definition makefile_input :: string where "makefile_input = ''Makefile.in''"
definition makefile_output :: string where "makefile_output = ''Makefile''"
definition defsfile_input :: string where "defsfile_input = ''src/defs.hpp.in''"
definition defsfile_output :: string where "defsfile_output = ''src/defs.hpp''"

subsection \<open>The whole run\<close>

text \<open>
  The result is the error that ended the run, or \<open>()\<close>, and the file system the run
  leaves behind. The closing print-out of the options is not modelled.
\<close>

definition configure :: "string list \<Rightarrow> cmdline \<Rightarrow> filesystem \<Rightarrow> (error + unit) \<times> filesystem" where
  "configure pgen_choices cl fs =
     (case parse_args pgen_choices cl of
        Inl e \<Rightarrow> (Inl e, fs)
      | Inr parsed \<Rightarrow>
     (let a = set_default_flux parsed in
      case check_compatibility a of
        Inl e \<Rightarrow> (Inl e, fs)
      | Inr u \<Rightarrow>
     (case resolve a of
        Inl e \<Rightarrow> (Inl e, fs)
      | Inr c \<Rightarrow>
     (case read_file defsfile_input fs of
        (Inl e, fs1) \<Rightarrow> (Inl e, fs1)
      | (Inr defsfile_template, fs1) \<Rightarrow>
     (case read_file makefile_input fs1 of
        (Inl e, fs2) \<Rightarrow> (Inl e, fs2)
      | (Inr makefile_template, fs2) \<Rightarrow>
     (case substitute (definitions c) defsfile_template of
        Inl e \<Rightarrow> (Inl e, fs2)
      | Inr defsfile_text \<Rightarrow>
     (case substitute (makefile_options c) makefile_template of
        Inl e \<Rightarrow> (Inl e, fs2)
      | Inr makefile_text \<Rightarrow>
     (case write_file defsfile_output defsfile_text fs2 of
        (Inl e, fs3) \<Rightarrow> (Inl e, fs3)
      | (Inr u3, fs3) \<Rightarrow> write_file makefile_output makefile_text fs3))))))))"

section \<open>Templates as the specification describes them\<close>

text \<open>
  A template is text with placeholders \<^verbatim>\<open>@NAME@\<close>. Its pieces are stretches of
  text, placeholders, and single \<^verbatim>\<open>@\<close> characters that belong to no placeholder
  (a build recipe writes \<^verbatim>\<open>$@\<close>).
\<close>

datatype piece = Lit string | Ph string | At

fun render_piece :: "piece \<Rightarrow> string" where
  "render_piece (Lit s) = s"
| "render_piece (Ph n) = ''@'' @ n @ ''@''"
| "render_piece At = ''@''"

definition render :: "piece list \<Rightarrow> string" where
  "render ps = concat (map render_piece ps)"

definition ident_char :: "char \<Rightarrow> bool" where
  "ident_char c = (ascii_letter c \<or> dec_digit c \<or> c = CHR ''_'')"

definition separator :: "char \<Rightarrow> bool" where
  "separator c = (\<not> ident_char c \<and> c \<noteq> CHR ''@'')"

text \<open>
  A condition that can be read off the template alone, and is enough for the substitution
  to fill it whenever no value contains \<^verbatim>\<open>@\<close> (\<open>separated_placeholders_filled\<close>).
  \<open>separated True ps\<close>: no text or name contains \<^verbatim>\<open>@\<close>, and between the
  \<^verbatim>\<open>@\<close> that ends one placeholder (or stands alone) and the next \<^verbatim>\<open>@\<close> there is a
  character that no name can contain. The flag says whether such a character was seen
  since the last \<^verbatim>\<open>@\<close>.
\<close>

fun separated :: "bool \<Rightarrow> piece list \<Rightarrow> bool" where
  "separated b [] = True"
| "separated b (Lit s # ps) =
     (CHR ''@'' \<notin> set s \<and> separated (b \<or> list_ex separator s) ps)"
| "separated b (Ph n # ps) = (b \<and> CHR ''@'' \<notin> set n \<and> separated False ps)"
| "separated b (At # ps) = (b \<and> separated False ps)"

text \<open>What the specification asks of the substitution, piece by piece.\<close>

fun fill :: "(string \<Rightarrow> string option) \<Rightarrow> piece \<Rightarrow> piece" where
  "fill m (Ph n) = (case m n of Some v \<Rightarrow> Lit v | None \<Rightarrow> Ph n)"
| "fill m (Lit s) = Lit s"
| "fill m At = At"


text \<open>What one pass of the loop, for the key \<open>k\<close>, does to a piece.\<close>

fun fill_one :: "string \<Rightarrow> string \<Rightarrow> piece \<Rightarrow> piece" where
  "fill_one k v (Ph n) = (if n = k then Lit v else Ph n)"
| "fill_one k v (Lit s) = Lit s"
| "fill_one k v At = At"

text \<open>
  \<open>no_start pat s rest\<close>: in the text \<open>s @ rest\<close>, no occurrence of \<open>pat\<close> starts
  within \<open>s\<close>.
\<close>

fun no_start :: "string \<Rightarrow> string \<Rightarrow> string \<Rightarrow> bool" where
  "no_start pat [] rest = True"
| "no_start pat (c # cs) rest = (\<not> prefix pat (c # cs @ rest) \<and> no_start pat cs rest)"

text \<open>
  \<open>only_placeholders k ps\<close>: in the template \<open>ps\<close>, the text \<^verbatim>\<open>@k@\<close> starts
  nowhere but at a placeholder of \<open>k\<close> (or inside one): no other piece, and no stretch
  across two pieces, reads \<^verbatim>\<open>@k@\<close>.
\<close>

fun only_placeholders :: "string \<Rightarrow> piece list \<Rightarrow> bool" where
  "only_placeholders k [] = True"
| "only_placeholders k (p # ps) =
     ((if p = Ph k then True
       else no_start (''@'' @ k @ ''@'') (render_piece p) (render ps))
      \<and> only_placeholders k ps)"

text \<open>
  \<open>tokens_exact items ps\<close>: when the loop comes to a key, the template with the
  placeholders of the earlier keys filled in holds \<^verbatim>\<open>@KEY@\<close> only as a
  placeholder. This fails when two placeholders share an \<^verbatim>\<open>@\<close>, and when a value
  put in earlier has made a new \<^verbatim>\<open>@KEY@\<close> for a later key.
\<close>

fun tokens_exact :: "dict \<Rightarrow> piece list \<Rightarrow> bool" where
  "tokens_exact [] ps = True"
| "tokens_exact ((k, v) # items) ps =
     (only_placeholders k ps \<and> tokens_exact items (map (fill_one k v) ps))"




section \<open>Closed forms\<close>

text \<open>
  What the script leaves in the dictionaries, written as one expression per value. They
  are not part of the script: \<open>resolve_run\<close> below proves that the script computes them.
\<close>

definition cxx_command :: "string \<Rightarrow> string" where
  "cxx_command cxx =
     (if cxx = ''g++'' then ''g++''
      else if cxx = ''icc'' \<or> cxx = ''icc-phi'' then ''icc''
      else if cxx = ''cray'' then ''CC''
      else ''bgxlc++'')"

definition cxx_choice :: "string \<Rightarrow> string" where
  "cxx_choice cxx =
     (if cxx = ''g++'' then ''g++''
      else if cxx = ''icc'' \<or> cxx = ''icc-phi'' then ''icc''
      else if cxx = ''cray'' then ''cray''
      else ''bgxlc++'')"

definition cxx_compiler_flags :: "string \<Rightarrow> string" where
  "cxx_compiler_flags cxx =
     (if cxx = ''g++'' then ''-O3 -march=native -ffast-math''
      else if cxx = ''icc'' then ''-O3 -xhost -ipo -inline-forceinline''
      else if cxx = ''cray'' then ''-O3 -h aggress -h vector3 -hfp3''
      else if cxx = ''bgxl'' then bgxl_flags
      else ''-O3 -xMIC-AVX512 -ipo -inline-forceinline'')"

definition cxx_linker_flags :: "string \<Rightarrow> string" where
  "cxx_linker_flags cxx =
     (if cxx = ''cray'' then ''-hwp -hpl=obj/lib''
      else if cxx = ''bgxl'' then bgxl_flags
      else [])"

definition cxx_library_flags :: "string \<Rightarrow> string" where
  "cxx_library_flags cxx = (if cxx = ''cray'' then ''-lm'' else [])"

definition debug_flags :: "string \<Rightarrow> string" where
  "debug_flags cxx =
     (if cxx = ''g++'' \<or> cxx = ''icc'' then ''-O0 -g''
      else if cxx = ''cray'' then ''-O0''
      else if cxx = ''bgxl'' then ''-O0 -g -qlanglvl=extended''
      else ''-O0 -g -xMIC-AVX512'')"

definition mpi_flags :: "args \<Rightarrow> string" where
  "mpi_flags a = (if arg_mpi a \<and> arg_cxx a = ''cray'' then '' -h mpi1'' else [])"

definition omp_flags :: "args \<Rightarrow> string" where
  "omp_flags a =
     (if arg_omp a then
        (if arg_cxx a = ''g++'' then '' -fopenmp''
         else if arg_cxx a = ''icc'' \<or> arg_cxx a = ''icc-phi'' then '' -openmp''
         else if arg_cxx a = ''cray'' then '' -homp''
         else '' -qsmp'')
      else
        (if arg_cxx a = ''cray'' then '' -hnoomp''
         else if arg_cxx a = ''icc'' \<or> arg_cxx a = ''icc-phi'' then '' -diag-disable 3180''
         else []))"

definition hdf5_preprocessor_flags :: "args \<Rightarrow> string" where
  "hdf5_preprocessor_flags a =
     (if arg_hdf5 a then
        (if arg_hdf5_path a \<noteq> [] then ''-I'' @ arg_hdf5_path a @ ''/include'' else [])
        @ (if arg_cxx a = ''bgxl'' then
             '' -D_LARGEFILE_SOURCE -D_LARGEFILE64_SOURCE -D_BSD_SOURCE''
             @ '' -I/soft/libraries/hdf5/1.10.0/cnk-xl/current/include''
             @ '' -I/bgsys/drivers/ppcfloor/comm/include''
           else [])
      else [])"

definition hdf5_linker_flags :: "args \<Rightarrow> string" where
  "hdf5_linker_flags a =
     (if arg_hdf5 a then
        (if arg_hdf5_path a \<noteq> [] then ''-L'' @ arg_hdf5_path a @ ''/lib'' else [])
        @ (if arg_cxx a = ''bgxl'' then
             '' -L/soft/libraries/hdf5/1.10.0/cnk-xl/current/lib''
             @ '' -L/soft/libraries/alcf/current/xl/ZLIB/lib''
           else [])
      else [])"

definition hdf5_library_flags :: "args \<Rightarrow> string" where
  "hdf5_library_flags a =
     (if arg_hdf5 a then (if arg_cxx a = ''bgxl'' then '' -lhdf5 -lz -lm'' else '' -lhdf5'')
      else [])"

definition eos_file :: "args \<Rightarrow> string" where
  "eos_file a = arg_eos a @ (if arg_b a then ''_mhd'' else ''_hydro'')
     @ (if arg_s a then ''_sr'' else []) @ (if arg_g a then ''_gr'' else []) @ ''.cpp''"

definition rsolver_file :: "args \<Rightarrow> string" where
  "rsolver_file a = arg_flux a
     @ (if arg_b a \<and> (arg_flux a = ''hlle'' \<or> arg_flux a = ''llf'' \<or> arg_flux a = ''roe'')
        then ''_mhd'' else [])
     @ (if arg_b a \<and> arg_eos a \<noteq> ''adiabatic'' \<and> arg_flux a = ''hlld'' then ''_iso'' else [])
     @ (if arg_s a then ''_rel'' else [])
     @ (if arg_g a then ''_rel'' @ (if \<not> arg_t a then ''_no_transform'' else []) else [])
     @ ''.cpp''"

definition preprocessor_flags :: "args \<Rightarrow> string" where
  "preprocessor_flags a = hdf5_preprocessor_flags a"

definition compiler_flags :: "args \<Rightarrow> string" where
  "compiler_flags a =
     (if arg_debug a then debug_flags (arg_cxx a) else cxx_compiler_flags (arg_cxx a))
     @ mpi_flags a @ omp_flags a @ concat (map (\<lambda>p. '' -I'' @ p) (arg_include a))"

definition linker_flags :: "args \<Rightarrow> string" where
  "linker_flags a = cxx_linker_flags (arg_cxx a) @ hdf5_linker_flags a
     @ concat (map (\<lambda>p. '' -L'' @ p) (arg_lib a))"

definition library_flags :: "args \<Rightarrow> string" where
  "library_flags a = cxx_library_flags (arg_cxx a) @ hdf5_library_flags a"

section \<open>Concrete inputs\<close>

definition default_args :: args where
  "default_args = \<lparr> arg_prob = ''shock_tube'', arg_coord = ''cartesian'', arg_eos = ''adiabatic'',
     arg_flux = ''default'', arg_order = ''plm'', arg_fint = ''vl2'', arg_b = False,
     arg_s = False, arg_g = False, arg_t = False, arg_sh = False, arg_debug = False,
     arg_mpi = False, arg_omp = False, arg_hdf5 = False, arg_hdf5_path = [],
     arg_cxx = ''g++'', arg_ccmd = None, arg_include = [], arg_lib = [] \<rparr>"

definition hllc_isothermal_mhd :: args where
  "hllc_isothermal_mhd = default_args\<lparr>arg_flux := ''hllc'', arg_eos := ''isothermal'', arg_b := True\<rparr>"

definition mhd_default_flux :: cmdline where
  "mhd_default_flux = no_options\<lparr>opt_b := True\<rparr>"

definition isothermal_mhd :: cmdline where
  "isothermal_mhd = no_options\<lparr>opt_b := True, opt_eos := Some ''isothermal''\<rparr>"

definition gr_mhd :: cmdline where
  "gr_mhd = no_options\<lparr>opt_b := True, opt_g := True, opt_coord := Some ''schwarzschild'',
     opt_prob := Some ''gr_bondi''\<rparr>"

definition gr_mhd_args :: args where
  "gr_mhd_args = default_args\<lparr>arg_prob := ''gr_bondi'', arg_coord := ''schwarzschild'',
     arg_b := True, arg_g := True\<rparr>"

definition debug_bgxl_args :: args where
  "debug_bgxl_args = default_args\<lparr>arg_cxx := ''bgxl'', arg_debug := True, arg_omp := True\<rparr>"

definition empty_fs :: filesystem where
  "empty_fs = \<lparr> fs_files = (\<lambda>p. None), fs_protected = (\<lambda>p. False), fs_opened = [] \<rparr>"

definition cray_hdf5_args :: args where
  "cray_hdf5_args = default_args\<lparr>arg_cxx := ''cray'', arg_hdf5 := True,
     arg_hdf5_path := ''/opt/hdf5''\<rparr>"

text \<open>The dictionaries of a run without any option.\<close>

definition default_config :: config where
  "default_config = \<lparr>definitions =
         [(''PROBLEM'', ''shock_tube''),
          (''COORDINATE_SYSTEM'', ''cartesian''),
          (''NON_BAROTROPIC_EOS'', ''1''), (''NHYDRO_VARIABLES'', ''5''),
          (''RSOLVER'', ''hllc''), (''RECONSTRUCT'', ''plm''),
          (''HYDRO_INTEGRATOR'', ''vl2''),
          (''MAGNETIC_FIELDS_ENABLED'', ''0''),
          (''NFIELD_VARIABLES'', ''0''), (''NWAVE_VALUE'', ''5''),
          (''RELATIVISTIC_DYNAMICS'', ''0''),
          (''GENERAL_RELATIVITY'', ''0''),
          (''FRAME_TRANSFORMATIONS'', ''0''), (''SHEARING_BOX'', ''0''),
          (''COMPILER_CHOICE'', ''g++''),
          (''COMPILER_COMMAND'', ''g++''), (''DEBUG'', ''NOT_DEBUG''),
          (''MPI_OPTION'', ''NOT_MPI_PARALLEL''),
          (''OPENMP_OPTION'', ''NOT_OPENMP_PARALLEL''),
          (''HDF5_OPTION'', ''NO_HDF5OUTPUT''),
          (''COMPILER_FLAGS'', '' -O3 -march=native -ffast-math  '')],
   makefile_options =
           [(''LOADER_FLAGS'', []), (''PROBLEM_FILE'', ''shock_tube.cpp''),
            (''COORDINATES_FILE'', ''cartesian.cpp''),
            (''EOS_FILE'', ''adiabatic_hydro.cpp''),
            (''RSOLVER_FILE'', ''hllc.cpp''),
            (''RECONSTRUCT_FILE'', ''plm.cpp''),
            (''HYDRO_INT_FILE'', ''vl2.cpp''), (''RSOLVER_DIR'', ''hydro/''),
            (''COMPILER_COMMAND'', ''g++''),
            (''PREPROCESSOR_FLAGS'', []),
            (''COMPILER_FLAGS'', ''-O3 -march=native -ffast-math''),
            (''LINKER_FLAGS'', []), (''LIBRARY_FLAGS'', [])]\<rparr>"





section \<open>Running the script on the dictionaries\<close>

lemma bindE_simps [simp]: "bindE (Inr x) f = f x" "bindE (Inl e) f = Inl e"
  by (simp_all add: bindE_def)

lemma map_of_dict_set [simp]: "map_of (dict_set k v d) = (map_of d)(k \<mapsto> v)"
  by (induction d) (auto intro!: ext)

lemma mk_set_maps [simp]:
  "map_of (makefile_options (mk_set k v c)) = (map_of (makefile_options c))(k \<mapsto> v)"
  "map_of (definitions (mk_set k v c)) = map_of (definitions c)"
  by (simp_all add: mk_set_def)

lemma def_set_maps [simp]:
  "map_of (definitions (def_set k v c)) = (map_of (definitions c))(k \<mapsto> v)"
  "map_of (makefile_options (def_set k v c)) = map_of (makefile_options c)"
  by (simp_all add: def_set_def)

lemma mk_add_unfold:
  "mk_add k s c = (case map_of (makefile_options c) k of
      None \<Rightarrow> Inl (KeyError k) | Some v \<Rightarrow> Inr (mk_set k (v @ s) c))"
  by (simp add: mk_add_def dict_add_def dict_get_def mk_set_def split: option.split)

lemma def_add_unfold:
  "def_add k s c = (case map_of (definitions c) k of
      None \<Rightarrow> Inl (KeyError k) | Some v \<Rightarrow> Inr (def_set k (v @ s) c))"
  by (simp add: def_add_def dict_add_def dict_get_def def_set_def split: option.split)

lemma cxx_cases:
  assumes "cxx \<in> set cxx_choices"
  obtains "cxx = ''g++''" | "cxx = ''icc''" | "cxx = ''cray''" | "cxx = ''bgxl''" | "cxx = ''icc-phi''"
  using assms by (auto simp: cxx_choices_def)

lemma set_relativity_run:
  assumes "map_of (makefile_options c) ''EOS_FILE'' = Some e"
    and "map_of (makefile_options c) ''RSOLVER_FILE'' = Some r"
  shows "\<exists>c'. set_relativity a c = Inr c'
    \<and> map_of (makefile_options c') = (map_of (makefile_options c))
        (''EOS_FILE'' \<mapsto> e @ (if arg_s a then ''_sr'' else []) @ (if arg_g a then ''_gr'' else []),
         ''RSOLVER_FILE'' \<mapsto> r @ (if arg_s a then ''_rel'' else [])
            @ (if arg_g a then ''_rel'' @ (if \<not> arg_t a then ''_no_transform'' else []) else []))
    \<and> map_of (definitions c') = (map_of (definitions c))
        (''RELATIVISTIC_DYNAMICS'' \<mapsto> (if arg_s a \<or> arg_g a then ''1'' else ''0''),
         ''GENERAL_RELATIVITY'' \<mapsto> (if arg_g a then ''1'' else ''0''),
         ''FRAME_TRANSFORMATIONS'' \<mapsto> (if arg_t a then ''1'' else ''0''))"
  using assms unfolding set_relativity_def Let_def
  by (auto simp: mk_add_unfold intro!: ext)

lemma set_sh_maps:
  "map_of (makefile_options (set_sh a c)) = map_of (makefile_options c)"
  "map_of (definitions (set_sh a c)) =
     (map_of (definitions c))(''SHEARING_BOX'' \<mapsto> (if arg_sh a then ''1'' else ''0''))"
  by (auto simp: set_sh_def)

lemma set_cxx_run:
  assumes "arg_cxx a \<in> set cxx_choices"
  shows "\<exists>c'. set_cxx a c = Inr c'
    \<and> map_of (makefile_options c') = (map_of (makefile_options c))
        (''COMPILER_COMMAND'' \<mapsto> cxx_command (arg_cxx a),
         ''PREPROCESSOR_FLAGS'' \<mapsto> [],
         ''COMPILER_FLAGS'' \<mapsto> cxx_compiler_flags (arg_cxx a),
         ''LINKER_FLAGS'' \<mapsto> cxx_linker_flags (arg_cxx a),
         ''LIBRARY_FLAGS'' \<mapsto> cxx_library_flags (arg_cxx a))
    \<and> map_of (definitions c') = (map_of (definitions c))
        (''COMPILER_CHOICE'' \<mapsto> cxx_choice (arg_cxx a),
         ''COMPILER_COMMAND'' \<mapsto> cxx_command (arg_cxx a))"
  using assms
  by (cases rule: cxx_cases)
     (auto simp: set_cxx_def Let_def cxx_block_def both_set_def dict_get_def cxx_command_def
       cxx_choice_def cxx_compiler_flags_def cxx_linker_flags_def cxx_library_flags_def
       intro!: ext)

lemma set_debug_maps:
  assumes "arg_cxx a \<in> set cxx_choices"
  shows "map_of (makefile_options (set_debug a c)) = (map_of (makefile_options c))
        (''COMPILER_FLAGS'' := (if arg_debug a then Some (debug_flags (arg_cxx a))
                               else map_of (makefile_options c) ''COMPILER_FLAGS''))"
    and "map_of (definitions (set_debug a c)) = (map_of (definitions c))
        (''DEBUG'' \<mapsto> (if arg_debug a then ''DEBUG'' else ''NOT_DEBUG''))"
  using assms
  by (cases rule: cxx_cases; auto simp: set_debug_def Let_def debug_flags_def intro!: ext)+

lemma set_mpi_run:
  assumes "arg_cxx a \<in> set cxx_choices"
    and "map_of (makefile_options c) ''COMPILER_FLAGS'' = Some cf"
  shows "\<exists>c'. set_mpi a c = Inr c'
    \<and> map_of (makefile_options c') = (map_of (makefile_options c))
        (''COMPILER_FLAGS'' \<mapsto> cf @ mpi_flags a,
         ''COMPILER_COMMAND'' := (if arg_mpi a \<and> arg_cxx a \<noteq> ''cray''
             then Some (if arg_cxx a = ''bgxl'' then ''mpixlcxx'' else ''mpicxx'')
             else map_of (makefile_options c) ''COMPILER_COMMAND''))
    \<and> map_of (definitions c') = (map_of (definitions c))
        (''MPI_OPTION'' \<mapsto> (if arg_mpi a then ''MPI_PARALLEL'' else ''NOT_MPI_PARALLEL''),
         ''COMPILER_COMMAND'' := (if arg_mpi a \<and> arg_cxx a \<noteq> ''cray''
             then Some (if arg_cxx a = ''bgxl'' then ''mpixlcxx'' else ''mpicxx'')
             else map_of (definitions c) ''COMPILER_COMMAND''))"
  using assms
  by (cases rule: cxx_cases)
     (auto simp: set_mpi_def Let_def both_set_def mk_add_unfold mpi_flags_def intro!: ext)

lemma set_omp_run:
  assumes "arg_cxx a \<in> set cxx_choices"
    and "map_of (makefile_options c) ''COMPILER_FLAGS'' = Some cf"
    and "map_of (makefile_options c) ''COMPILER_COMMAND'' = Some mc"
    and "map_of (definitions c) ''COMPILER_COMMAND'' = Some dc"
  shows "\<exists>c'. set_omp a c = Inr c'
    \<and> map_of (makefile_options c') = (map_of (makefile_options c))
        (''COMPILER_FLAGS'' \<mapsto> cf @ omp_flags a,
         ''COMPILER_COMMAND'' \<mapsto> (if arg_omp a \<and> arg_cxx a = ''bgxl'' then mc @ ''_r'' else mc))
    \<and> map_of (definitions c') = (map_of (definitions c))
        (''OPENMP_OPTION'' \<mapsto> (if arg_omp a then ''OPENMP_PARALLEL'' else ''NOT_OPENMP_PARALLEL''),
         ''COMPILER_COMMAND'' \<mapsto> (if arg_omp a \<and> arg_cxx a = ''bgxl'' then dc @ ''_r'' else dc))"
  using assms
  by (cases rule: cxx_cases)
     (auto simp: set_omp_def Let_def mk_add_unfold def_add_unfold omp_flags_def intro!: ext)

lemma set_hdf5_run:
  assumes "arg_cxx a \<in> set cxx_choices"
    and "map_of (makefile_options c) ''PREPROCESSOR_FLAGS'' = Some pf"
    and "map_of (makefile_options c) ''LINKER_FLAGS'' = Some lf"
    and "map_of (makefile_options c) ''LIBRARY_FLAGS'' = Some lb"
  shows "\<exists>c'. set_hdf5 a c = Inr c'
    \<and> map_of (makefile_options c') = (map_of (makefile_options c))
        (''PREPROCESSOR_FLAGS'' \<mapsto> pf @ hdf5_preprocessor_flags a,
         ''LINKER_FLAGS'' \<mapsto> lf @ hdf5_linker_flags a,
         ''LIBRARY_FLAGS'' \<mapsto> lb @ hdf5_library_flags a)
    \<and> map_of (definitions c') = (map_of (definitions c))
        (''HDF5_OPTION'' \<mapsto> (if arg_hdf5 a then ''HDF5OUTPUT'' else ''NO_HDF5OUTPUT''))"
  using assms
  by (cases rule: cxx_cases)
     (auto simp: set_hdf5_def Let_def mk_add_unfold hdf5_preprocessor_flags_def
        hdf5_linker_flags_def hdf5_library_flags_def intro!: ext)

lemma set_ccmd_maps:
  "map_of (makefile_options (set_ccmd a c)) = (map_of (makefile_options c))
     (''COMPILER_COMMAND'' := (case arg_ccmd a of None \<Rightarrow> map_of (makefile_options c) ''COMPILER_COMMAND''
         | Some v \<Rightarrow> Some v))"
  "map_of (definitions (set_ccmd a c)) = (map_of (definitions c))
     (''COMPILER_COMMAND'' := (case arg_ccmd a of None \<Rightarrow> map_of (definitions c) ''COMPILER_COMMAND''
         | Some v \<Rightarrow> Some v))"
  by (auto simp: set_ccmd_def both_set_def split: option.splits intro!: ext)

lemma add_includes_run:
  assumes "map_of (makefile_options c) ''COMPILER_FLAGS'' = Some cf"
  shows "\<exists>c'. add_includes ps c = Inr c'
    \<and> map_of (makefile_options c') = (map_of (makefile_options c))
        (''COMPILER_FLAGS'' \<mapsto> cf @ concat (map (\<lambda>p. '' -I'' @ p) ps))
    \<and> map_of (definitions c') = map_of (definitions c)"
  using assms
proof (induction ps arbitrary: c cf)
  case Nil
  then show ?case by (auto intro!: ext)
next
  case (Cons p ps)
  let ?c1 = "mk_set ''COMPILER_FLAGS'' (cf @ '' -I'' @ p) c"
  have step: "mk_add ''COMPILER_FLAGS'' ('' -I'' @ p) c = Inr ?c1"
    using Cons.prems by (simp add: mk_add_unfold)
  have "map_of (makefile_options ?c1) ''COMPILER_FLAGS'' = Some (cf @ '' -I'' @ p)"
    by simp
  from Cons.IH [OF this] obtain c' where
    "add_includes ps ?c1 = Inr c'"
    "map_of (makefile_options c') = (map_of (makefile_options ?c1))
        (''COMPILER_FLAGS'' \<mapsto> (cf @ '' -I'' @ p) @ concat (map (\<lambda>p. '' -I'' @ p) ps))"
    "map_of (definitions c') = map_of (definitions ?c1)"
    by blast
  then show ?case using step by auto
qed

lemma add_libs_run:
  assumes "map_of (makefile_options c) ''LINKER_FLAGS'' = Some lf"
  shows "\<exists>c'. add_libs ps c = Inr c'
    \<and> map_of (makefile_options c') = (map_of (makefile_options c))
        (''LINKER_FLAGS'' \<mapsto> lf @ concat (map (\<lambda>p. '' -L'' @ p) ps))
    \<and> map_of (definitions c') = map_of (definitions c)"
  using assms
proof (induction ps arbitrary: c lf)
  case Nil
  then show ?case by (auto intro!: ext)
next
  case (Cons p ps)
  let ?c1 = "mk_set ''LINKER_FLAGS'' (lf @ '' -L'' @ p) c"
  have step: "mk_add ''LINKER_FLAGS'' ('' -L'' @ p) c = Inr ?c1"
    using Cons.prems by (simp add: mk_add_unfold)
  have "map_of (makefile_options ?c1) ''LINKER_FLAGS'' = Some (lf @ '' -L'' @ p)"
    by simp
  from Cons.IH [OF this] obtain c' where
    "add_libs ps ?c1 = Inr c'"
    "map_of (makefile_options c') = (map_of (makefile_options ?c1))
        (''LINKER_FLAGS'' \<mapsto> (lf @ '' -L'' @ p) @ concat (map (\<lambda>p. '' -L'' @ p) ps))"
    "map_of (definitions c') = map_of (definitions ?c1)"
    by blast
  then show ?case using step by auto
qed

lemma assemble_flags_run:
  assumes "map_of (makefile_options c) ''PREPROCESSOR_FLAGS'' = Some pf"
    and "map_of (makefile_options c) ''COMPILER_FLAGS'' = Some cf"
    and "map_of (makefile_options c) ''LINKER_FLAGS'' = Some lf"
    and "map_of (makefile_options c) ''LIBRARY_FLAGS'' = Some lb"
  shows "\<exists>c'. assemble_flags c = Inr c'
    \<and> map_of (makefile_options c') = map_of (makefile_options c)
    \<and> map_of (definitions c') = (map_of (definitions c))
        (''COMPILER_FLAGS'' \<mapsto> pf @ '' '' @ cf @ '' '' @ lf @ '' '' @ lb)"
  using assms by (simp add: assemble_flags_def dict_get_def)

lemma terminate_filenames_run:
  assumes "map_of (makefile_options c) ''PROBLEM_FILE'' = Some f1"
    and "map_of (makefile_options c) ''COORDINATES_FILE'' = Some f2"
    and "map_of (makefile_options c) ''EOS_FILE'' = Some f3"
    and "map_of (makefile_options c) ''RSOLVER_FILE'' = Some f4"
    and "map_of (makefile_options c) ''RECONSTRUCT_FILE'' = Some f5"
    and "map_of (makefile_options c) ''HYDRO_INT_FILE'' = Some f6"
  shows "\<exists>c'. terminate_filenames c = Inr c'
    \<and> map_of (makefile_options c') = (map_of (makefile_options c))
        (''PROBLEM_FILE'' \<mapsto> f1 @ ''.cpp'', ''COORDINATES_FILE'' \<mapsto> f2 @ ''.cpp'',
         ''EOS_FILE'' \<mapsto> f3 @ ''.cpp'', ''RSOLVER_FILE'' \<mapsto> f4 @ ''.cpp'',
         ''RECONSTRUCT_FILE'' \<mapsto> f5 @ ''.cpp'', ''HYDRO_INT_FILE'' \<mapsto> f6 @ ''.cpp'')
    \<and> map_of (definitions c') = map_of (definitions c)"
  using assms by (simp add: terminate_filenames_def mk_add_unfold)

lemma start_maps:
  "map_of (makefile_options (set_fint a (set_order a (set_flux a (set_eos a (set_coord a
      (set_prob a initial_config))))))) =
     [''LOADER_FLAGS'' \<mapsto> [], ''PROBLEM_FILE'' \<mapsto> arg_prob a,
      ''COORDINATES_FILE'' \<mapsto> arg_coord a, ''EOS_FILE'' \<mapsto> arg_eos a,
      ''RSOLVER_FILE'' \<mapsto> arg_flux a, ''RECONSTRUCT_FILE'' \<mapsto> arg_order a,
      ''HYDRO_INT_FILE'' \<mapsto> arg_fint a]"
  "map_of (definitions (set_fint a (set_order a (set_flux a (set_eos a (set_coord a
      (set_prob a initial_config))))))) =
     [''PROBLEM'' \<mapsto> arg_prob a, ''COORDINATE_SYSTEM'' \<mapsto> arg_coord a,
      ''NON_BAROTROPIC_EOS'' \<mapsto> (if arg_eos a = ''adiabatic'' then ''1'' else ''0''),
      ''RSOLVER'' \<mapsto> arg_flux a, ''RECONSTRUCT'' \<mapsto> arg_order a,
      ''HYDRO_INTEGRATOR'' \<mapsto> arg_fint a]
     (''NHYDRO_VARIABLES'' := (if arg_eos a = ''adiabatic'' then Some ''5''
         else if arg_eos a = ''isothermal'' then Some ''4'' else None))"
  by (auto simp: set_fint_def set_order_def set_flux_def set_eos_def set_coord_def
      set_prob_def initial_config_def both_set_def Let_def intro!: ext)

lemma set_b_run:
  assumes "map_of (makefile_options c) ''EOS_FILE'' = Some e"
    and "map_of (makefile_options c) ''RSOLVER_FILE'' = Some r"
  shows "\<exists>c'. set_b a c = Inr c'
    \<and> map_of (makefile_options c') = (map_of (makefile_options c))
        (''EOS_FILE'' \<mapsto> e @ (if arg_b a then ''_mhd'' else ''_hydro''),
         ''RSOLVER_DIR'' \<mapsto> (if arg_b a then ''mhd/'' else ''hydro/''),
         ''RSOLVER_FILE'' \<mapsto> r
            @ (if arg_b a \<and> (arg_flux a = ''hlle'' \<or> arg_flux a = ''llf'' \<or> arg_flux a = ''roe'')
               then ''_mhd'' else [])
            @ (if arg_b a \<and> arg_eos a \<noteq> ''adiabatic'' \<and> arg_flux a = ''hlld''
               then ''_iso'' else []))
    \<and> map_of (definitions c') = (map_of (definitions c))
        (''MAGNETIC_FIELDS_ENABLED'' \<mapsto> (if arg_b a then ''1'' else ''0''),
         ''NFIELD_VARIABLES'' \<mapsto> (if arg_b a then ''3'' else ''0''),
         ''NWAVE_VALUE'' \<mapsto> (if arg_b a then (if arg_eos a = ''adiabatic'' then ''7'' else ''6'')
            else (if arg_eos a = ''adiabatic'' then ''5'' else ''4'')))"
  using assms unfolding set_b_def Let_def
  by (auto simp: mk_add_unfold intro!: ext)

lemma resolve_run:
  assumes cxx: "arg_cxx a \<in> set cxx_choices"
  shows "\<exists>c. resolve a = Inr c
    \<and> map_of (makefile_options c) ''EOS_FILE'' = Some (eos_file a)
    \<and> map_of (makefile_options c) ''RSOLVER_FILE'' = Some (rsolver_file a)
    \<and> map_of (makefile_options c) ''PREPROCESSOR_FLAGS'' = Some (preprocessor_flags a)
    \<and> map_of (makefile_options c) ''COMPILER_FLAGS'' = Some (compiler_flags a)
    \<and> map_of (makefile_options c) ''LINKER_FLAGS'' = Some (linker_flags a)
    \<and> map_of (makefile_options c) ''LIBRARY_FLAGS'' = Some (library_flags a)
    \<and> map_of (definitions c) ''COMPILER_FLAGS'' =
         Some (preprocessor_flags a @ '' '' @ compiler_flags a @ '' '' @ linker_flags a
               @ '' '' @ library_flags a)
    \<and> map_of (definitions c) ''RSOLVER'' = Some (arg_flux a)
    \<and> map_of (definitions c) ''NHYDRO_VARIABLES'' =
         (if arg_eos a = ''adiabatic'' then Some ''5''
          else if arg_eos a = ''isothermal'' then Some ''4'' else None)
    \<and> map_of (definitions c) ''NFIELD_VARIABLES'' = Some (if arg_b a then ''3'' else ''0'')
    \<and> map_of (definitions c) ''NWAVE_VALUE'' =
         Some (if arg_b a then (if arg_eos a = ''adiabatic'' then ''7'' else ''6'')
               else (if arg_eos a = ''adiabatic'' then ''5'' else ''4''))
    \<and> dom (map_of (makefile_options c)) = set [''LOADER_FLAGS'', ''PROBLEM_FILE'',
         ''COORDINATES_FILE'', ''EOS_FILE'', ''RSOLVER_FILE'', ''RECONSTRUCT_FILE'',
         ''HYDRO_INT_FILE'', ''RSOLVER_DIR'', ''COMPILER_COMMAND'', ''PREPROCESSOR_FLAGS'',
         ''COMPILER_FLAGS'', ''LINKER_FLAGS'', ''LIBRARY_FLAGS'']
    \<and> dom (map_of (definitions c)) \<subseteq> set [''PROBLEM'', ''COORDINATE_SYSTEM'',
         ''NON_BAROTROPIC_EOS'', ''NHYDRO_VARIABLES'', ''RSOLVER'', ''RECONSTRUCT'',
         ''HYDRO_INTEGRATOR'', ''MAGNETIC_FIELDS_ENABLED'', ''NFIELD_VARIABLES'',
         ''NWAVE_VALUE'', ''RELATIVISTIC_DYNAMICS'', ''GENERAL_RELATIVITY'',
         ''FRAME_TRANSFORMATIONS'', ''SHEARING_BOX'', ''COMPILER_CHOICE'',
         ''COMPILER_COMMAND'', ''DEBUG'', ''MPI_OPTION'', ''OPENMP_OPTION'', ''HDF5_OPTION'',
         ''COMPILER_FLAGS'']"
proof -
  define c0 where "c0 = set_fint a (set_order a (set_flux a (set_eos a (set_coord a
      (set_prob a initial_config)))))"
  note m0 = start_maps [of a, folded c0_def]
  obtain c1 where r1: "set_b a c0 = Inr c1"
    and m1: "map_of (makefile_options c1) = (map_of (makefile_options c0))
        (''EOS_FILE'' \<mapsto> arg_eos a @ (if arg_b a then ''_mhd'' else ''_hydro''),
         ''RSOLVER_DIR'' \<mapsto> (if arg_b a then ''mhd/'' else ''hydro/''),
         ''RSOLVER_FILE'' \<mapsto> arg_flux a
            @ (if arg_b a \<and> (arg_flux a = ''hlle'' \<or> arg_flux a = ''llf'' \<or> arg_flux a = ''roe'')
               then ''_mhd'' else [])
            @ (if arg_b a \<and> arg_eos a \<noteq> ''adiabatic'' \<and> arg_flux a = ''hlld''
               then ''_iso'' else []))"
    and d1: "map_of (definitions c1) = (map_of (definitions c0))
        (''MAGNETIC_FIELDS_ENABLED'' \<mapsto> (if arg_b a then ''1'' else ''0''),
         ''NFIELD_VARIABLES'' \<mapsto> (if arg_b a then ''3'' else ''0''),
         ''NWAVE_VALUE'' \<mapsto> (if arg_b a then (if arg_eos a = ''adiabatic'' then ''7'' else ''6'')
            else (if arg_eos a = ''adiabatic'' then ''5'' else ''4'')))"
    using set_b_run [of c0 "arg_eos a" "arg_flux a" a] by (auto simp: m0)
  let ?e1 = "arg_eos a @ (if arg_b a then ''_mhd'' else ''_hydro'')"
  let ?r1 = "arg_flux a
            @ (if arg_b a \<and> (arg_flux a = ''hlle'' \<or> arg_flux a = ''llf'' \<or> arg_flux a = ''roe'')
               then ''_mhd'' else [])
            @ (if arg_b a \<and> arg_eos a \<noteq> ''adiabatic'' \<and> arg_flux a = ''hlld''
               then ''_iso'' else [])"
  obtain c2 where r2: "set_relativity a c1 = Inr c2"
    and m2: "map_of (makefile_options c2) = (map_of (makefile_options c1))
        (''EOS_FILE'' \<mapsto> ?e1 @ (if arg_s a then ''_sr'' else []) @ (if arg_g a then ''_gr'' else []),
         ''RSOLVER_FILE'' \<mapsto> ?r1 @ (if arg_s a then ''_rel'' else [])
            @ (if arg_g a then ''_rel'' @ (if \<not> arg_t a then ''_no_transform'' else []) else []))"
    and d2: "map_of (definitions c2) = (map_of (definitions c1))
        (''RELATIVISTIC_DYNAMICS'' \<mapsto> (if arg_s a \<or> arg_g a then ''1'' else ''0''),
         ''GENERAL_RELATIVITY'' \<mapsto> (if arg_g a then ''1'' else ''0''),
         ''FRAME_TRANSFORMATIONS'' \<mapsto> (if arg_t a then ''1'' else ''0''))"
    using set_relativity_run [of c1 ?e1 ?r1 a] by (auto simp: m1)
  obtain c3 where r3: "set_cxx a (set_sh a c2) = Inr c3"
    and m3: "map_of (makefile_options c3) = (map_of (makefile_options c2))
        (''COMPILER_COMMAND'' \<mapsto> cxx_command (arg_cxx a),
         ''PREPROCESSOR_FLAGS'' \<mapsto> [],
         ''COMPILER_FLAGS'' \<mapsto> cxx_compiler_flags (arg_cxx a),
         ''LINKER_FLAGS'' \<mapsto> cxx_linker_flags (arg_cxx a),
         ''LIBRARY_FLAGS'' \<mapsto> cxx_library_flags (arg_cxx a))"
    and d3: "map_of (definitions c3) = (map_of (definitions c2))
        (''SHEARING_BOX'' \<mapsto> (if arg_sh a then ''1'' else ''0''),
         ''COMPILER_CHOICE'' \<mapsto> cxx_choice (arg_cxx a),
         ''COMPILER_COMMAND'' \<mapsto> cxx_command (arg_cxx a))"
    using set_cxx_run [OF cxx, of "set_sh a c2"] by (auto simp: set_sh_maps)
  let ?cf3 = "if arg_debug a then debug_flags (arg_cxx a) else cxx_compiler_flags (arg_cxx a)"
  have m3': "map_of (makefile_options (set_debug a c3)) ''COMPILER_FLAGS'' = Some ?cf3"
    by (simp add: set_debug_maps [OF cxx] m3)
  obtain c4 where r4: "set_mpi a (set_debug a c3) = Inr c4"
    and m4: "map_of (makefile_options c4) = (map_of (makefile_options (set_debug a c3)))
        (''COMPILER_FLAGS'' \<mapsto> ?cf3 @ mpi_flags a,
         ''COMPILER_COMMAND'' := (if arg_mpi a \<and> arg_cxx a \<noteq> ''cray''
             then Some (if arg_cxx a = ''bgxl'' then ''mpixlcxx'' else ''mpicxx'')
             else map_of (makefile_options (set_debug a c3)) ''COMPILER_COMMAND''))"
    and d4: "map_of (definitions c4) = (map_of (definitions (set_debug a c3)))
        (''MPI_OPTION'' \<mapsto> (if arg_mpi a then ''MPI_PARALLEL'' else ''NOT_MPI_PARALLEL''),
         ''COMPILER_COMMAND'' := (if arg_mpi a \<and> arg_cxx a \<noteq> ''cray''
             then Some (if arg_cxx a = ''bgxl'' then ''mpixlcxx'' else ''mpicxx'')
             else map_of (definitions (set_debug a c3)) ''COMPILER_COMMAND''))"
    using set_mpi_run [OF cxx m3'] by blast
  have "\<exists>mc. map_of (makefile_options c4) ''COMPILER_COMMAND'' = Some mc"
    by (simp add: m4 set_debug_maps [OF cxx] m3)
  then obtain mc where mc: "map_of (makefile_options c4) ''COMPILER_COMMAND'' = Some mc"
    by blast
  have "\<exists>dc. map_of (definitions c4) ''COMPILER_COMMAND'' = Some dc"
    by (simp add: d4 set_debug_maps [OF cxx] d3)
  then obtain dc where dc: "map_of (definitions c4) ''COMPILER_COMMAND'' = Some dc"
    by blast
  have cf4: "map_of (makefile_options c4) ''COMPILER_FLAGS'' = Some (?cf3 @ mpi_flags a)"
    by (simp add: m4)
  obtain c5 where r5: "set_omp a c4 = Inr c5"
    and m5: "map_of (makefile_options c5) = (map_of (makefile_options c4))
        (''COMPILER_FLAGS'' \<mapsto> (?cf3 @ mpi_flags a) @ omp_flags a,
         ''COMPILER_COMMAND'' \<mapsto> (if arg_omp a \<and> arg_cxx a = ''bgxl'' then mc @ ''_r'' else mc))"
    and d5: "map_of (definitions c5) = (map_of (definitions c4))
        (''OPENMP_OPTION'' \<mapsto> (if arg_omp a then ''OPENMP_PARALLEL'' else ''NOT_OPENMP_PARALLEL''),
         ''COMPILER_COMMAND'' \<mapsto> (if arg_omp a \<and> arg_cxx a = ''bgxl'' then dc @ ''_r'' else dc))"
    using set_omp_run [OF cxx cf4 mc dc] by blast
  have f5: "map_of (makefile_options c5) ''PREPROCESSOR_FLAGS'' = Some []"
    "map_of (makefile_options c5) ''LINKER_FLAGS'' = Some (cxx_linker_flags (arg_cxx a))"
    "map_of (makefile_options c5) ''LIBRARY_FLAGS'' = Some (cxx_library_flags (arg_cxx a))"
    by (simp_all add: m5 m4 set_debug_maps [OF cxx] m3)
  obtain c6 where r6: "set_hdf5 a c5 = Inr c6"
    and m6: "map_of (makefile_options c6) = (map_of (makefile_options c5))
        (''PREPROCESSOR_FLAGS'' \<mapsto> [] @ hdf5_preprocessor_flags a,
         ''LINKER_FLAGS'' \<mapsto> cxx_linker_flags (arg_cxx a) @ hdf5_linker_flags a,
         ''LIBRARY_FLAGS'' \<mapsto> cxx_library_flags (arg_cxx a) @ hdf5_library_flags a)"
    and d6: "map_of (definitions c6) = (map_of (definitions c5))
        (''HDF5_OPTION'' \<mapsto> (if arg_hdf5 a then ''HDF5OUTPUT'' else ''NO_HDF5OUTPUT''))"
    using set_hdf5_run [OF cxx f5] by blast
  let ?cf6 = "(?cf3 @ mpi_flags a) @ omp_flags a"
  have cf6: "map_of (makefile_options (set_ccmd a c6)) ''COMPILER_FLAGS'' = Some ?cf6"
    by (simp add: set_ccmd_maps m6 m5)
  obtain c7 where r7: "add_includes (arg_include a) (set_ccmd a c6) = Inr c7"
    and m7: "map_of (makefile_options c7) = (map_of (makefile_options (set_ccmd a c6)))
        (''COMPILER_FLAGS'' \<mapsto> ?cf6 @ concat (map (\<lambda>p. '' -I'' @ p) (arg_include a)))"
    and d7: "map_of (definitions c7) = map_of (definitions (set_ccmd a c6))"
    using add_includes_run [OF cf6] by blast
  let ?lf6 = "cxx_linker_flags (arg_cxx a) @ hdf5_linker_flags a"
  have lf7: "map_of (makefile_options c7) ''LINKER_FLAGS'' = Some ?lf6"
    by (simp add: m7 set_ccmd_maps m6)
  obtain c8 where r8: "add_libs (arg_lib a) c7 = Inr c8"
    and m8: "map_of (makefile_options c8) = (map_of (makefile_options c7))
        (''LINKER_FLAGS'' \<mapsto> ?lf6 @ concat (map (\<lambda>p. '' -L'' @ p) (arg_lib a)))"
    and d8: "map_of (definitions c8) = map_of (definitions c7)"
    using add_libs_run [OF lf7] by blast
  have f8: "map_of (makefile_options c8) ''PREPROCESSOR_FLAGS'' = Some (preprocessor_flags a)"
    "map_of (makefile_options c8) ''COMPILER_FLAGS'' = Some (compiler_flags a)"
    "map_of (makefile_options c8) ''LINKER_FLAGS'' = Some (linker_flags a)"
    "map_of (makefile_options c8) ''LIBRARY_FLAGS'' = Some (library_flags a)"
    by (simp_all add: m8 m7 set_ccmd_maps m6 preprocessor_flags_def compiler_flags_def
        linker_flags_def library_flags_def)
  obtain c9 where r9: "assemble_flags c8 = Inr c9"
    and m9: "map_of (makefile_options c9) = map_of (makefile_options c8)"
    and d9: "map_of (definitions c9) = (map_of (definitions c8))
        (''COMPILER_FLAGS'' \<mapsto> preprocessor_flags a @ '' '' @ compiler_flags a @ '' ''
            @ linker_flags a @ '' '' @ library_flags a)"
    using assemble_flags_run [OF f8] by blast
  have f9: "map_of (makefile_options c9) ''PROBLEM_FILE'' = Some (arg_prob a)"
    "map_of (makefile_options c9) ''COORDINATES_FILE'' = Some (arg_coord a)"
    "map_of (makefile_options c9) ''EOS_FILE'' =
       Some (?e1 @ (if arg_s a then ''_sr'' else []) @ (if arg_g a then ''_gr'' else []))"
    "map_of (makefile_options c9) ''RSOLVER_FILE'' = Some (?r1 @ (if arg_s a then ''_rel'' else [])
            @ (if arg_g a then ''_rel'' @ (if \<not> arg_t a then ''_no_transform'' else []) else []))"
    "map_of (makefile_options c9) ''RECONSTRUCT_FILE'' = Some (arg_order a)"
    "map_of (makefile_options c9) ''HYDRO_INT_FILE'' = Some (arg_fint a)"
    by (simp_all add: m9 m8 m7 set_ccmd_maps m6 m5 m4 set_debug_maps [OF cxx] m3 m2 m1 m0)
  obtain c10 where r10: "terminate_filenames c9 = Inr c10"
    and m10: "map_of (makefile_options c10) = (map_of (makefile_options c9))
        (''PROBLEM_FILE'' \<mapsto> arg_prob a @ ''.cpp'', ''COORDINATES_FILE'' \<mapsto> arg_coord a @ ''.cpp'',
         ''EOS_FILE'' \<mapsto> (?e1 @ (if arg_s a then ''_sr'' else []) @ (if arg_g a then ''_gr'' else []))
            @ ''.cpp'',
         ''RSOLVER_FILE'' \<mapsto> (?r1 @ (if arg_s a then ''_rel'' else [])
            @ (if arg_g a then ''_rel'' @ (if \<not> arg_t a then ''_no_transform'' else []) else []))
            @ ''.cpp'',
         ''RECONSTRUCT_FILE'' \<mapsto> arg_order a @ ''.cpp'', ''HYDRO_INT_FILE'' \<mapsto> arg_fint a @ ''.cpp'')"
    and d10: "map_of (definitions c10) = map_of (definitions c9)"
    using terminate_filenames_run [OF f9] by blast
  have run: "resolve a = Inr c10"
    by (simp add: resolve_def c0_def [symmetric] r1 r2 r3 r4 r5 r6 r7 r8 r9 r10)
  have files: "map_of (makefile_options c10) ''EOS_FILE'' = Some (eos_file a)"
    "map_of (makefile_options c10) ''RSOLVER_FILE'' = Some (rsolver_file a)"
    by (simp_all add: m10 eos_file_def rsolver_file_def)
  have flags: "map_of (makefile_options c10) ''PREPROCESSOR_FLAGS'' = Some (preprocessor_flags a)"
    "map_of (makefile_options c10) ''COMPILER_FLAGS'' = Some (compiler_flags a)"
    "map_of (makefile_options c10) ''LINKER_FLAGS'' = Some (linker_flags a)"
    "map_of (makefile_options c10) ''LIBRARY_FLAGS'' = Some (library_flags a)"
    by (simp_all add: m10 m9 f8)
  have defs: "map_of (definitions c10) ''COMPILER_FLAGS'' =
         Some (preprocessor_flags a @ '' '' @ compiler_flags a @ '' '' @ linker_flags a
               @ '' '' @ library_flags a)"
    "map_of (definitions c10) ''RSOLVER'' = Some (arg_flux a)"
    "map_of (definitions c10) ''NHYDRO_VARIABLES'' =
         (if arg_eos a = ''adiabatic'' then Some ''5''
          else if arg_eos a = ''isothermal'' then Some ''4'' else None)"
    "map_of (definitions c10) ''NFIELD_VARIABLES'' = Some (if arg_b a then ''3'' else ''0'')"
    "map_of (definitions c10) ''NWAVE_VALUE'' =
         Some (if arg_b a then (if arg_eos a = ''adiabatic'' then ''7'' else ''6'')
               else (if arg_eos a = ''adiabatic'' then ''5'' else ''4''))"
    by (simp_all add: d10 d9 d8 d7 set_ccmd_maps d6 d5 d4 set_debug_maps [OF cxx] d3 d2 d1 m0)
  have mkeys: "dom (map_of (makefile_options c10)) = set [''LOADER_FLAGS'', ''PROBLEM_FILE'',
         ''COORDINATES_FILE'', ''EOS_FILE'', ''RSOLVER_FILE'', ''RECONSTRUCT_FILE'',
         ''HYDRO_INT_FILE'', ''RSOLVER_DIR'', ''COMPILER_COMMAND'', ''PREPROCESSOR_FLAGS'',
         ''COMPILER_FLAGS'', ''LINKER_FLAGS'', ''LIBRARY_FLAGS'']"
    by (auto simp: m10 m9 m8 m7 set_ccmd_maps m6 m5 m4 set_debug_maps [OF cxx] m3 m2 m1 m0
        split: if_splits option.splits)
  have dkeys: "dom (map_of (definitions c10)) \<subseteq> set [''PROBLEM'', ''COORDINATE_SYSTEM'',
         ''NON_BAROTROPIC_EOS'', ''NHYDRO_VARIABLES'', ''RSOLVER'', ''RECONSTRUCT'',
         ''HYDRO_INTEGRATOR'', ''MAGNETIC_FIELDS_ENABLED'', ''NFIELD_VARIABLES'',
         ''NWAVE_VALUE'', ''RELATIVISTIC_DYNAMICS'', ''GENERAL_RELATIVITY'',
         ''FRAME_TRANSFORMATIONS'', ''SHEARING_BOX'', ''COMPILER_CHOICE'',
         ''COMPILER_COMMAND'', ''DEBUG'', ''MPI_OPTION'', ''OPENMP_OPTION'', ''HDF5_OPTION'',
         ''COMPILER_FLAGS'']"
    by (auto simp: d10 d9 d8 d7 set_ccmd_maps d6 d5 d4 set_debug_maps [OF cxx] d3 d2 d1 m0
        split: if_splits option.splits)
  from run files flags defs mkeys dkeys show ?thesis by blast
qed

section \<open>Validation\<close>

lemma bindE_eq_Inr: "bindE m f = Inr y \<longleftrightarrow> (\<exists>x. m = Inr x \<and> f x = Inr y)"
  by (cases m) simp_all

lemma check_choice_Inr:
  "check_choice cs d g = Inr v \<Longrightarrow> v \<in> set cs \<or> v = d"
  by (auto simp: check_choice_def split: option.splits if_splits)

lemma parse_args_Inr:
  assumes "parse_args pgen cl = Inr a"
  shows "arg_cxx a \<in> set cxx_choices" and "arg_eos a \<in> set eos_choices"
    and "arg_flux a \<in> set flux_choices" and "arg_coord a \<in> set coord_choices"
    and "arg_b a = opt_b cl" and "arg_debug a = opt_debug cl"
    and "arg_include a = opt_include cl"
proof -
  from assms obtain prob coord eos flux order fint cxx where
    c: "check_choice coord_choices ''cartesian'' (opt_coord cl) = Inr coord"
      "check_choice eos_choices ''adiabatic'' (opt_eos cl) = Inr eos"
      "check_choice flux_choices ''default'' (opt_flux cl) = Inr flux"
      "check_choice cxx_choices ''g++'' (opt_cxx cl) = Inr cxx"
    and a: "a = \<lparr> arg_prob = prob, arg_coord = coord, arg_eos = eos, arg_flux = flux,
           arg_order = order, arg_fint = fint,
           arg_b = opt_b cl, arg_s = opt_s cl, arg_g = opt_g cl, arg_t = opt_t cl,
           arg_sh = opt_sh cl, arg_debug = opt_debug cl, arg_mpi = opt_mpi cl,
           arg_omp = opt_omp cl, arg_hdf5 = opt_hdf5 cl,
           arg_hdf5_path = (case opt_hdf5_path cl of None \<Rightarrow> [] | Some p \<Rightarrow> p),
           arg_cxx = cxx, arg_ccmd = opt_ccmd cl,
           arg_include = opt_include cl, arg_lib = opt_lib cl \<rparr>"
    unfolding parse_args_def bindE_eq_Inr by auto
  from check_choice_Inr [OF c(1)] show "arg_coord a \<in> set coord_choices"
    by (auto simp: a coord_choices_def)
  from check_choice_Inr [OF c(2)] show "arg_eos a \<in> set eos_choices"
    by (auto simp: a eos_choices_def)
  from check_choice_Inr [OF c(3)] show "arg_flux a \<in> set flux_choices"
    by (auto simp: a flux_choices_def)
  from check_choice_Inr [OF c(4)] show "arg_cxx a \<in> set cxx_choices"
    by (auto simp: a cxx_choices_def)
  show "arg_b a = opt_b cl" "arg_debug a = opt_debug cl" "arg_include a = opt_include cl"
    by (simp_all add: a)
qed

lemma set_default_flux_fields [simp]:
  "arg_prob (set_default_flux a) = arg_prob a"
  "arg_coord (set_default_flux a) = arg_coord a"
  "arg_eos (set_default_flux a) = arg_eos a"
  "arg_b (set_default_flux a) = arg_b a"
  "arg_s (set_default_flux a) = arg_s a"
  "arg_g (set_default_flux a) = arg_g a"
  "arg_t (set_default_flux a) = arg_t a"
  "arg_debug (set_default_flux a) = arg_debug a"
  "arg_mpi (set_default_flux a) = arg_mpi a"
  "arg_omp (set_default_flux a) = arg_omp a"
  "arg_hdf5 (set_default_flux a) = arg_hdf5 a"
  "arg_hdf5_path (set_default_flux a) = arg_hdf5_path a"
  "arg_cxx (set_default_flux a) = arg_cxx a"
  "arg_include (set_default_flux a) = arg_include a"
  "arg_lib (set_default_flux a) = arg_lib a"
  by (simp_all add: set_default_flux_def)

lemmas rule_defs = rule1_def rule2_def rule3_def rule4_def rule5_def rule6_def rule7_def
  rule8_def rule9_def flat_coords_def

lemmas msg_defs = msg1_def msg2_def msg3_def msg4_def msg5_def msg6_def msg7_def msg8_def
  msg9_def

lemma check_compatibility_rules:
  "check_compatibility a =
     (case first_violated compat_rules a of None \<Rightarrow> Inr () | Some m \<Rightarrow> Inl (SystemExit m))"
  by (simp add: check_compatibility_def compat_rules_def rule_defs msg_defs)

lemma check_compatibility_Inr:
  assumes "check_compatibility a = Inr ()"
  shows "\<not> rule1 a" "\<not> rule2 a" "\<not> rule3 a" "\<not> rule4 a" "\<not> rule5 a" "\<not> rule6 a"
    "\<not> rule7 a" "\<not> rule8 a" "\<not> rule9 a"
  using assms
  by (simp_all add: check_compatibility_rules compat_rules_def split: if_splits)

subsection \<open>The validator reports the first violated rule\<close>

text \<open>
  Claim C1. The if-chain of the script and the ordered list of the nine rules agree on
  every option set: when some rule is violated the run ends with \<^verbatim>\<open>SystemExit\<close> and
  the message of the first violated rule of the list, and when none is violated the check
  passes. The nine messages of one option set are pairwise different (for a coordinate
  system of the parser's list), so the message tells which rule it was. The rules are
  tested on the options as they stand after the default flux was chosen.
\<close>

theorem compatibility_first_violated_rule:
  "check_compatibility a =
     (case first_violated compat_rules a of None \<Rightarrow> Inr () | Some m \<Rightarrow> Inl (SystemExit m))
   \<and> (arg_coord a \<in> set coord_choices \<longrightarrow> distinct (map (\<lambda>rm. snd rm a) compat_rules))"
proof
  show "check_compatibility a =
     (case first_violated compat_rules a of None \<Rightarrow> Inr () | Some m \<Rightarrow> Inl (SystemExit m))"
    by (simp add: check_compatibility_def compat_rules_def rule_defs msg_defs)
  show "arg_coord a \<in> set coord_choices \<longrightarrow> distinct (map (\<lambda>rm. snd rm a) compat_rules)"
    by (auto simp: coord_choices_def compat_rules_def msg_defs)
qed

text \<open>
  \<^verbatim>\<open>--flux=hllc --eos=isothermal -b\<close> violates rules 1 and 2; rule 1 is reported.
\<close>

theorem compatibility_first_violated_rule_witness:
  "arg_coord hllc_isothermal_mhd \<in> set coord_choices
   \<and> rule1 hllc_isothermal_mhd \<and> rule2 hllc_isothermal_mhd
   \<and> check_compatibility hllc_isothermal_mhd
       = Inl (SystemExit ''### CONFIGURE ERROR: HLLC flux cannot be used with isothermal EOS'')
   \<and> distinct (map (\<lambda>rm. snd rm hllc_isothermal_mhd) compat_rules)"
  using compatibility_first_violated_rule [of hllc_isothermal_mhd]
  by (simp add: hllc_isothermal_mhd_def default_args_def coord_choices_def compat_rules_def
      rule_defs msg_defs)

subsection \<open>The default flux passes the flux rules\<close>

text \<open>
  Claim C4. When \<^verbatim>\<open>--flux\<close> was left at \<^verbatim>\<open>default\<close>, the options with the chosen
  flux violate none of the rules 1, 2, 3 and 6, and if the compatibility check still
  rejects them, the message is that of rule 4, 5, 7, 8 or 9.
\<close>

theorem default_flux_never_rejected:
  assumes "arg_flux a = ''default''"
  shows "\<not> rule1 (set_default_flux a) \<and> \<not> rule2 (set_default_flux a)
    \<and> \<not> rule3 (set_default_flux a) \<and> \<not> rule6 (set_default_flux a)
    \<and> (\<forall>e. check_compatibility (set_default_flux a) = Inl e \<longrightarrow>
          e \<in> SystemExit ` {msg4 (set_default_flux a), msg5 (set_default_flux a),
            msg7 (set_default_flux a), msg8 (set_default_flux a), msg9 (set_default_flux a)})"
proof -
  have flux: "\<not> rule1 (set_default_flux a)" "\<not> rule2 (set_default_flux a)"
    "\<not> rule3 (set_default_flux a)" "\<not> rule6 (set_default_flux a)"
    using assms by (simp_all add: set_default_flux_def rule_defs)
  then show ?thesis
    by (simp add: check_compatibility_rules compat_rules_def split: if_splits)
qed

lemma parse_no_options: "parse_args pgen no_options = Inr default_args"
  by (simp add: parse_args_def check_choice_def no_options_def default_args_def)

text \<open>
  \<^verbatim>\<open>-t\<close> alone: the flux becomes \<^verbatim>\<open>hllc\<close>, and the run is rejected by rule 5.
\<close>

theorem default_flux_never_rejected_witness:
  "arg_flux (default_args\<lparr>arg_t := True\<rparr>) = ''default''
   \<and> \<not> rule1 (set_default_flux (default_args\<lparr>arg_t := True\<rparr>))
   \<and> \<not> rule2 (set_default_flux (default_args\<lparr>arg_t := True\<rparr>))
   \<and> \<not> rule3 (set_default_flux (default_args\<lparr>arg_t := True\<rparr>))
   \<and> \<not> rule6 (set_default_flux (default_args\<lparr>arg_t := True\<rparr>))
   \<and> check_compatibility (set_default_flux (default_args\<lparr>arg_t := True\<rparr>))
       = Inl (SystemExit ''### CONFIGURE ERROR: Frame transformations only apply to GR'')"
  using default_flux_never_rejected [of "default_args\<lparr>arg_t := True\<rparr>"]
  by (simp add: default_args_def set_default_flux_def check_compatibility_def)

subsection \<open>The default flux\<close>

text \<open>
  Claim C3. A flux left at \<^verbatim>\<open>default\<close> becomes \<^verbatim>\<open>hlle\<close> under general
  relativity, else \<^verbatim>\<open>hlld\<close> with magnetic fields, else \<^verbatim>\<open>hlle\<close> for the
  isothermal equation of state, else \<^verbatim>\<open>hllc\<close>; a flux given by name stays, and no
  other option changes. With \<^verbatim>\<open>-b\<close>, the adiabatic equation of state, no general
  relativity and the flux at its default, the flux is \<^verbatim>\<open>hlld\<close> and the script
  defines \<^verbatim>\<open>NWAVE_VALUE\<close> as 7 and \<^verbatim>\<open>NFIELD_VARIABLES\<close> as 3.
\<close>

theorem default_flux_priority_chain:
  "(arg_flux a = ''default'' \<longrightarrow>
      arg_flux (set_default_flux a) =
        (if arg_g a then ''hlle'' else if arg_b a then ''hlld''
         else if arg_eos a = ''isothermal'' then ''hlle'' else ''hllc''))
   \<and> (arg_flux a \<noteq> ''default'' \<longrightarrow> set_default_flux a = a)
   \<and> (set_default_flux a)\<lparr>arg_flux := arg_flux a\<rparr> = a
   \<and> (arg_flux a = ''default'' \<and> arg_b a \<and> \<not> arg_g a \<and> arg_eos a = ''adiabatic''
        \<and> arg_cxx a \<in> set cxx_choices \<longrightarrow>
        arg_flux (set_default_flux a) = ''hlld''
        \<and> (\<exists>c. resolve (set_default_flux a) = Inr c
              \<and> map_of (definitions c) ''RSOLVER'' = Some ''hlld''
              \<and> map_of (definitions c) ''NWAVE_VALUE'' = Some ''7''
              \<and> map_of (definitions c) ''NFIELD_VARIABLES'' = Some ''3''))"
proof (intro conjI impI)
  assume h: "arg_flux a = ''default'' \<and> arg_b a \<and> \<not> arg_g a \<and> arg_eos a = ''adiabatic''
        \<and> arg_cxx a \<in> set cxx_choices"
  then have f: "arg_flux (set_default_flux a) = ''hlld''"
    by (simp add: set_default_flux_def)
  from h have "arg_cxx (set_default_flux a) \<in> set cxx_choices" by simp
  from resolve_run [OF this] obtain c where
    "resolve (set_default_flux a) = Inr c"
    "map_of (definitions c) ''RSOLVER'' = Some (arg_flux (set_default_flux a))"
    "map_of (definitions c) ''NFIELD_VARIABLES'' =
       Some (if arg_b (set_default_flux a) then ''3'' else ''0'')"
    "map_of (definitions c) ''NWAVE_VALUE'' =
         Some (if arg_b (set_default_flux a)
               then (if arg_eos (set_default_flux a) = ''adiabatic'' then ''7'' else ''6'')
               else (if arg_eos (set_default_flux a) = ''adiabatic'' then ''5'' else ''4''))"
    by blast
  with h f show "\<exists>c. resolve (set_default_flux a) = Inr c
              \<and> map_of (definitions c) ''RSOLVER'' = Some ''hlld''
              \<and> map_of (definitions c) ''NWAVE_VALUE'' = Some ''7''
              \<and> map_of (definitions c) ''NFIELD_VARIABLES'' = Some ''3''"
    by auto
  show "arg_flux (set_default_flux a) = ''hlld''" by (rule f)
qed (simp_all add: set_default_flux_def)

theorem default_flux_priority_chain_witness:
  "parse_args [] mhd_default_flux = Inr (default_args\<lparr>arg_b := True\<rparr>)
   \<and> arg_flux (default_args\<lparr>arg_b := True\<rparr>) = ''default''
   \<and> arg_flux (set_default_flux (default_args\<lparr>arg_b := True\<rparr>)) = ''hlld''
   \<and> arg_flux (set_default_flux (default_args\<lparr>arg_flux := ''roe''\<rparr>)) = ''roe''
   \<and> (\<exists>c. resolve (set_default_flux (default_args\<lparr>arg_b := True\<rparr>)) = Inr c
              \<and> map_of (definitions c) ''RSOLVER'' = Some ''hlld''
              \<and> map_of (definitions c) ''NWAVE_VALUE'' = Some ''7''
              \<and> map_of (definitions c) ''NFIELD_VARIABLES'' = Some ''3'')"
  using default_flux_priority_chain [of "default_args\<lparr>arg_b := True\<rparr>"]
    default_flux_priority_chain [of "default_args\<lparr>arg_flux := ''roe''\<rparr>"]
  by (simp add: default_args_def cxx_choices_def parse_args_def check_choice_def
      no_options_def mhd_default_flux_def)

section \<open>The resolved configuration\<close>

subsection \<open>Variable counts\<close>

text \<open>
  Claim C2. For options that pass the parser and the compatibility check, the script
  defines \<^verbatim>\<open>NHYDRO_VARIABLES\<close> as 5 (adiabatic) or 4 (isothermal),
  \<^verbatim>\<open>NFIELD_VARIABLES\<close> as 3 with magnetic fields and 0 without, and
  \<^verbatim>\<open>NWAVE_VALUE\<close> as 7, 6, 5 or 4 by the table over equation of state and
  magnetic fields.
\<close>

theorem variable_counts_table:
  assumes "parse_args pgen cl = Inr p"
    and "check_compatibility (set_default_flux p) = Inr ()"
  shows "\<exists>c. resolve (set_default_flux p) = Inr c
    \<and> (arg_eos p = ''adiabatic'' \<or> arg_eos p = ''isothermal'')
    \<and> map_of (definitions c) ''NHYDRO_VARIABLES'' =
         Some (if arg_eos p = ''adiabatic'' then ''5'' else ''4'')
    \<and> map_of (definitions c) ''NFIELD_VARIABLES'' = Some (if arg_b p then ''3'' else ''0'')
    \<and> map_of (definitions c) ''NWAVE_VALUE'' =
         Some (if arg_eos p = ''adiabatic'' \<and> arg_b p then ''7''
               else if arg_eos p = ''isothermal'' \<and> arg_b p then ''6''
               else if arg_eos p = ''adiabatic'' then ''5'' else ''4'')"
proof -
  from parse_args_Inr [OF assms(1)]
  have cxx: "arg_cxx (set_default_flux p) \<in> set cxx_choices"
    and eos: "arg_eos p = ''adiabatic'' \<or> arg_eos p = ''isothermal''"
    by (auto simp: eos_choices_def)
  from resolve_run [OF cxx] obtain c where
    "resolve (set_default_flux p) = Inr c"
    "map_of (definitions c) ''NHYDRO_VARIABLES'' =
         (if arg_eos (set_default_flux p) = ''adiabatic'' then Some ''5''
          else if arg_eos (set_default_flux p) = ''isothermal'' then Some ''4'' else None)"
    "map_of (definitions c) ''NFIELD_VARIABLES'' =
       Some (if arg_b (set_default_flux p) then ''3'' else ''0'')"
    "map_of (definitions c) ''NWAVE_VALUE'' =
         Some (if arg_b (set_default_flux p)
               then (if arg_eos (set_default_flux p) = ''adiabatic'' then ''7'' else ''6'')
               else (if arg_eos (set_default_flux p) = ''adiabatic'' then ''5'' else ''4''))"
    by blast
  with eos show ?thesis by auto
qed

theorem variable_counts_table_witness:
  "parse_args [] isothermal_mhd = Inr (default_args\<lparr>arg_eos := ''isothermal'', arg_b := True\<rparr>)
   \<and> check_compatibility
        (set_default_flux (default_args\<lparr>arg_eos := ''isothermal'', arg_b := True\<rparr>)) = Inr ()
   \<and> (\<exists>c. resolve (set_default_flux (default_args\<lparr>arg_eos := ''isothermal'', arg_b := True\<rparr>))
            = Inr c
        \<and> map_of (definitions c) ''NHYDRO_VARIABLES'' = Some ''4''
        \<and> map_of (definitions c) ''NFIELD_VARIABLES'' = Some ''3''
        \<and> map_of (definitions c) ''NWAVE_VALUE'' = Some ''6'')"
proof -
  have 1: "parse_args [] isothermal_mhd
      = Inr (default_args\<lparr>arg_eos := ''isothermal'', arg_b := True\<rparr>)"
    by (simp add: parse_args_def check_choice_def no_options_def default_args_def
        isothermal_mhd_def eos_choices_def)
  have 2: "check_compatibility
        (set_default_flux (default_args\<lparr>arg_eos := ''isothermal'', arg_b := True\<rparr>)) = Inr ()"
    by (simp add: check_compatibility_def set_default_flux_def default_args_def)
  from variable_counts_table [OF 1 2] 1 2 show ?thesis
    by (simp add: default_args_def)
qed

subsection \<open>File names\<close>

text \<open>
  Claim C5. For options that pass the parser and the compatibility check,
  \<^verbatim>\<open>EOS_FILE\<close> is the equation of state, then \<^verbatim>\<open>_mhd\<close> or
  \<^verbatim>\<open>_hydro\<close>, then \<^verbatim>\<open>_sr\<close> or \<^verbatim>\<open>_gr\<close> under relativity, then
  \<^verbatim>\<open>.cpp\<close>; \<^verbatim>\<open>RSOLVER_FILE\<close> is the flux, then \<^verbatim>\<open>_mhd\<close> for hlle, llf
  and roe with magnetic fields, then \<^verbatim>\<open>_iso\<close> for hlld with the isothermal equation of
  state and magnetic fields, then \<^verbatim>\<open>_rel\<close> under either relativity, followed by
  \<^verbatim>\<open>_no_transform\<close> under general relativity without frame transformations, then
  \<^verbatim>\<open>.cpp\<close>.
\<close>

theorem file_names_composed:
  assumes "parse_args pgen cl = Inr p"
    and "check_compatibility (set_default_flux p) = Inr ()"
    and "a = set_default_flux p"
  shows "\<exists>c. resolve a = Inr c
    \<and> map_of (makefile_options c) ''EOS_FILE'' =
         Some (arg_eos a @ (if arg_b a then ''_mhd'' else ''_hydro'')
               @ (if arg_s a then ''_sr'' else if arg_g a then ''_gr'' else [])
               @ ''.cpp'')
    \<and> map_of (makefile_options c) ''RSOLVER_FILE'' =
         Some (arg_flux a
               @ (if arg_b a \<and> arg_flux a \<in> set [''hlle'', ''llf'', ''roe''] then ''_mhd'' else [])
               @ (if arg_flux a = ''hlld'' \<and> arg_eos a = ''isothermal'' \<and> arg_b a
                  then ''_iso'' else [])
               @ (if arg_s a \<or> arg_g a
                  then ''_rel'' @ (if arg_g a \<and> \<not> arg_t a then ''_no_transform'' else [])
                  else [])
               @ ''.cpp'')"
proof -
  from parse_args_Inr [OF assms(1)]
  have cxx: "arg_cxx a \<in> set cxx_choices"
    and eos: "arg_eos a = ''adiabatic'' \<or> arg_eos a = ''isothermal''"
    by (auto simp: eos_choices_def assms(3))
  from check_compatibility_Inr(4) [OF assms(2)] have sg: "\<not> (arg_s a \<and> arg_g a)"
    by (simp add: rule4_def assms(3))
  from resolve_run [OF cxx] obtain c where
    "resolve a = Inr c"
    "map_of (makefile_options c) ''EOS_FILE'' = Some (eos_file a)"
    "map_of (makefile_options c) ''RSOLVER_FILE'' = Some (rsolver_file a)"
    by blast
  with eos sg show ?thesis
    by (auto simp: eos_file_def rsolver_file_def)
qed

theorem file_names_composed_witness:
  "parse_args [''gr_bondi''] gr_mhd = Inr gr_mhd_args
   \<and> check_compatibility (set_default_flux gr_mhd_args) = Inr ()
   \<and> (\<exists>c. resolve (set_default_flux gr_mhd_args) = Inr c
        \<and> map_of (makefile_options c) ''EOS_FILE'' = Some ''adiabatic_mhd_gr.cpp''
        \<and> map_of (makefile_options c) ''RSOLVER_FILE'' = Some ''hlle_mhd_rel_no_transform.cpp'')"
proof -
  have 1: "parse_args [''gr_bondi''] gr_mhd = Inr gr_mhd_args"
    by (simp add: parse_args_def check_choice_def no_options_def default_args_def
        gr_mhd_def gr_mhd_args_def coord_choices_def)
  have 2: "check_compatibility (set_default_flux gr_mhd_args) = Inr ()"
    by (simp add: check_compatibility_def set_default_flux_def default_args_def gr_mhd_args_def)
  from file_names_composed [OF 1 2 refl] 1 2 show ?thesis
    by (simp add: default_args_def gr_mhd_args_def set_default_flux_def)
qed

lemma no_O3:
  assumes "arg_cxx a \<in> set cxx_choices"
  shows "\<not> sublist ''-O3'' (debug_flags (arg_cxx a) @ mpi_flags a @ omp_flags a)"
  using assms
  by (cases rule: cxx_cases)
     (simp_all add: debug_flags_def mpi_flags_def omp_flags_def sublist_code)

lemma base_has_O3:
  assumes "cxx \<in> set cxx_choices"
  shows "prefix ''-O3'' (cxx_compiler_flags cxx)"
  using assms
  by (cases rule: cxx_cases) (simp_all add: cxx_compiler_flags_def bgxl_flags_def)

subsection \<open>Debug flags\<close>

text \<open>
  Claim C7. With \<^verbatim>\<open>-debug\<close> and no \<^verbatim>\<open>--include\<close>, the value of
  \<^verbatim>\<open>makefile_options['COMPILER_FLAGS']\<close> is the debug string of the compiler,
  followed by what \<^verbatim>\<open>-mpi\<close> and \<^verbatim>\<open>-omp\<close> (or its absence) append for that
  compiler, and by nothing else. So it begins with the debug string, \<^verbatim>\<open>-O3\<close>
  occurs nowhere in it, and the string the \<^verbatim>\<open>--cxx\<close> block had bound (which
  begins with \<^verbatim>\<open>-O3\<close>) does not occur in it either, for each of the five
  compilers.
\<close>

theorem debug_overrides_compiler_flags:
  assumes "arg_cxx a \<in> set cxx_choices" and "arg_debug a" and "arg_include a = []"
  shows "\<exists>c fl. resolve a = Inr c
    \<and> map_of (makefile_options c) ''COMPILER_FLAGS'' = Some fl
    \<and> fl = (if arg_cxx a = ''g++'' \<or> arg_cxx a = ''icc'' then ''-O0 -g''
             else if arg_cxx a = ''cray'' then ''-O0''
             else if arg_cxx a = ''bgxl'' then ''-O0 -g -qlanglvl=extended''
             else ''-O0 -g -xMIC-AVX512'')
          @ (if arg_mpi a \<and> arg_cxx a = ''cray'' then '' -h mpi1'' else [])
          @ (if arg_omp a then
               (if arg_cxx a = ''g++'' then '' -fopenmp''
                else if arg_cxx a = ''icc'' \<or> arg_cxx a = ''icc-phi'' then '' -openmp''
                else if arg_cxx a = ''cray'' then '' -homp''
                else '' -qsmp'')
             else
               (if arg_cxx a = ''cray'' then '' -hnoomp''
                else if arg_cxx a = ''icc'' \<or> arg_cxx a = ''icc-phi''
                then '' -diag-disable 3180''
                else []))
    \<and> (arg_cxx a = ''g++'' \<or> arg_cxx a = ''icc'' \<longrightarrow> prefix ''-O0 -g'' fl)
    \<and> (arg_cxx a = ''cray'' \<longrightarrow> prefix ''-O0'' fl)
    \<and> (arg_cxx a = ''bgxl'' \<longrightarrow> prefix ''-O0 -g -qlanglvl=extended'' fl)
    \<and> (arg_cxx a = ''icc-phi'' \<longrightarrow> prefix ''-O0 -g -xMIC-AVX512'' fl)
    \<and> \<not> sublist ''-O3'' fl
    \<and> (\<forall>c0 c1 base. set_cxx a c0 = Inr c1
          \<and> map_of (makefile_options c1) ''COMPILER_FLAGS'' = Some base
          \<longrightarrow> prefix ''-O3'' base \<and> \<not> sublist base fl)"
proof -
  from resolve_run [OF assms(1)] obtain c where
    run: "resolve a = Inr c"
    and fl: "map_of (makefile_options c) ''COMPILER_FLAGS'' = Some (compiler_flags a)"
    by blast
  have cf: "compiler_flags a = debug_flags (arg_cxx a) @ mpi_flags a @ omp_flags a"
    using assms by (simp add: compiler_flags_def)
  have exact: "compiler_flags a =
          (if arg_cxx a = ''g++'' \<or> arg_cxx a = ''icc'' then ''-O0 -g''
             else if arg_cxx a = ''cray'' then ''-O0''
             else if arg_cxx a = ''bgxl'' then ''-O0 -g -qlanglvl=extended''
             else ''-O0 -g -xMIC-AVX512'')
          @ (if arg_mpi a \<and> arg_cxx a = ''cray'' then '' -h mpi1'' else [])
          @ (if arg_omp a then
               (if arg_cxx a = ''g++'' then '' -fopenmp''
                else if arg_cxx a = ''icc'' \<or> arg_cxx a = ''icc-phi'' then '' -openmp''
                else if arg_cxx a = ''cray'' then '' -homp''
                else '' -qsmp'')
             else
               (if arg_cxx a = ''cray'' then '' -hnoomp''
                else if arg_cxx a = ''icc'' \<or> arg_cxx a = ''icc-phi''
                then '' -diag-disable 3180''
                else []))"
    unfolding cf debug_flags_def mpi_flags_def omp_flags_def by (rule refl)
  have pre: "prefix (debug_flags (arg_cxx a)) (compiler_flags a)"
    by (simp add: cf)
  have no: "\<not> sublist ''-O3'' (compiler_flags a)"
    using no_O3 [OF assms(1)] by (simp add: cf)
  have base: "prefix ''-O3'' base \<and> \<not> sublist base (compiler_flags a)"
    if "set_cxx a c0 = Inr c1" "map_of (makefile_options c1) ''COMPILER_FLAGS'' = Some base"
    for c0 c1 base
  proof -
    from set_cxx_run [OF assms(1), of c0] that
    have b: "base = cxx_compiler_flags (arg_cxx a)" by auto
    have p: "prefix ''-O3'' base" unfolding b by (rule base_has_O3 [OF assms(1)])
    have "\<not> sublist base (compiler_flags a)"
    proof
      assume "sublist base (compiler_flags a)"
      with prefix_imp_sublist [OF p] have "sublist ''-O3'' (compiler_flags a)"
        by (rule sublist_order.order_trans)
      with no show False by contradiction
    qed
    with p show ?thesis by simp
  qed
  from pre have
    "arg_cxx a = ''g++'' \<or> arg_cxx a = ''icc'' \<longrightarrow> prefix ''-O0 -g'' (compiler_flags a)"
    "arg_cxx a = ''cray'' \<longrightarrow> prefix ''-O0'' (compiler_flags a)"
    "arg_cxx a = ''bgxl'' \<longrightarrow> prefix ''-O0 -g -qlanglvl=extended'' (compiler_flags a)"
    "arg_cxx a = ''icc-phi'' \<longrightarrow> prefix ''-O0 -g -xMIC-AVX512'' (compiler_flags a)"
    by (auto simp: debug_flags_def)
  then have p: "arg_cxx a = ''g++'' \<or> arg_cxx a = ''icc'' \<longrightarrow> prefix ''-O0 -g'' (compiler_flags a)"
    "arg_cxx a = ''cray'' \<longrightarrow> prefix ''-O0'' (compiler_flags a)"
    "arg_cxx a = ''bgxl'' \<longrightarrow> prefix ''-O0 -g -qlanglvl=extended'' (compiler_flags a)"
    "arg_cxx a = ''icc-phi'' \<longrightarrow> prefix ''-O0 -g -xMIC-AVX512'' (compiler_flags a)"
    by simp_all
  from base have all: "\<forall>c0 c1 base. set_cxx a c0 = Inr c1
          \<and> map_of (makefile_options c1) ''COMPILER_FLAGS'' = Some base
          \<longrightarrow> prefix ''-O3'' base \<and> \<not> sublist base (compiler_flags a)"
    by blast
  show ?thesis
    by (rule exI [of _ c], rule exI [of _ "compiler_flags a"])
       (intro conjI run fl exact p no all)
qed

theorem debug_overrides_compiler_flags_witness:
  "arg_cxx debug_bgxl_args \<in> set cxx_choices \<and> arg_debug debug_bgxl_args
   \<and> arg_include debug_bgxl_args = []
   \<and> (\<exists>c. resolve debug_bgxl_args = Inr c
        \<and> map_of (makefile_options c) ''COMPILER_FLAGS''
            = Some ''-O0 -g -qlanglvl=extended -qsmp'')
   \<and> \<not> sublist ''-O3'' ''-O0 -g -qlanglvl=extended -qsmp''"
proof -
  have h: "arg_cxx debug_bgxl_args \<in> set cxx_choices" "arg_debug debug_bgxl_args"
    "arg_include debug_bgxl_args = []"
    by (simp_all add: debug_bgxl_args_def default_args_def cxx_choices_def)
  from debug_overrides_compiler_flags [OF h] obtain c fl where
    r: "resolve debug_bgxl_args = Inr c"
    and m: "map_of (makefile_options c) ''COMPILER_FLAGS'' = Some fl"
    and e: "fl = (if arg_cxx debug_bgxl_args = ''g++'' \<or> arg_cxx debug_bgxl_args = ''icc''
             then ''-O0 -g''
             else if arg_cxx debug_bgxl_args = ''cray'' then ''-O0''
             else if arg_cxx debug_bgxl_args = ''bgxl'' then ''-O0 -g -qlanglvl=extended''
             else ''-O0 -g -xMIC-AVX512'')
          @ (if arg_mpi debug_bgxl_args \<and> arg_cxx debug_bgxl_args = ''cray''
             then '' -h mpi1'' else [])
          @ (if arg_omp debug_bgxl_args then
               (if arg_cxx debug_bgxl_args = ''g++'' then '' -fopenmp''
                else if arg_cxx debug_bgxl_args = ''icc'' \<or> arg_cxx debug_bgxl_args = ''icc-phi''
                then '' -openmp''
                else if arg_cxx debug_bgxl_args = ''cray'' then '' -homp''
                else '' -qsmp'')
             else
               (if arg_cxx debug_bgxl_args = ''cray'' then '' -hnoomp''
                else if arg_cxx debug_bgxl_args = ''icc'' \<or> arg_cxx debug_bgxl_args = ''icc-phi''
                then '' -diag-disable 3180''
                else []))"
    and n: "\<not> sublist ''-O3'' fl"
    by - (elim exE conjE, rule that)
  from e have v: "fl = ''-O0 -g -qlanglvl=extended -qsmp''"
    by (simp add: debug_bgxl_args_def default_args_def)
  from r m n have "\<exists>c. resolve debug_bgxl_args = Inr c
        \<and> map_of (makefile_options c) ''COMPILER_FLAGS''
            = Some ''-O0 -g -qlanglvl=extended -qsmp''"
    "\<not> sublist ''-O3'' ''-O0 -g -qlanglvl=extended -qsmp''"
    unfolding v by blast+
  with h show ?thesis by (intro conjI)
qed

subsection \<open>The aggregate flag string\<close>

text \<open>
  Claim C8. For options that pass the parser and the compatibility check,
  \<^verbatim>\<open>definitions['COMPILER_FLAGS']\<close> is the final preprocessor, compiler, linker and
  library flag strings of \<^verbatim>\<open>makefile_options\<close>, in this order, joined by single
  spaces.
\<close>

theorem aggregate_flags_order:
  assumes "parse_args pgen cl = Inr p"
    and "check_compatibility (set_default_flux p) = Inr ()"
  shows "\<exists>c pf cf lf lb. resolve (set_default_flux p) = Inr c
    \<and> map_of (makefile_options c) ''PREPROCESSOR_FLAGS'' = Some pf
    \<and> map_of (makefile_options c) ''COMPILER_FLAGS'' = Some cf
    \<and> map_of (makefile_options c) ''LINKER_FLAGS'' = Some lf
    \<and> map_of (makefile_options c) ''LIBRARY_FLAGS'' = Some lb
    \<and> map_of (definitions c) ''COMPILER_FLAGS'' = Some (join '' '' [pf, cf, lf, lb])
    \<and> join '' '' [pf, cf, lf, lb] = pf @ '' '' @ cf @ '' '' @ lf @ '' '' @ lb"
proof -
  from parse_args_Inr [OF assms(1)]
  have cxx: "arg_cxx (set_default_flux p) \<in> set cxx_choices" by simp
  from resolve_run [OF cxx] obtain c where
    "resolve (set_default_flux p) = Inr c"
    "map_of (makefile_options c) ''PREPROCESSOR_FLAGS''
       = Some (preprocessor_flags (set_default_flux p))"
    "map_of (makefile_options c) ''COMPILER_FLAGS'' = Some (compiler_flags (set_default_flux p))"
    "map_of (makefile_options c) ''LINKER_FLAGS'' = Some (linker_flags (set_default_flux p))"
    "map_of (makefile_options c) ''LIBRARY_FLAGS'' = Some (library_flags (set_default_flux p))"
    "map_of (definitions c) ''COMPILER_FLAGS'' =
         Some (preprocessor_flags (set_default_flux p) @ '' ''
               @ compiler_flags (set_default_flux p) @ '' ''
               @ linker_flags (set_default_flux p) @ '' ''
               @ library_flags (set_default_flux p))"
    by blast
  then show ?thesis by simp
qed

theorem aggregate_flags_order_witness:
  "parse_args [] (no_options\<lparr>opt_cxx := Some ''cray''\<rparr>) = Inr (default_args\<lparr>arg_cxx := ''cray''\<rparr>)
   \<and> check_compatibility (set_default_flux (default_args\<lparr>arg_cxx := ''cray''\<rparr>)) = Inr ()
   \<and> (\<exists>c pf cf lf lb. resolve (set_default_flux (default_args\<lparr>arg_cxx := ''cray''\<rparr>)) = Inr c
    \<and> map_of (makefile_options c) ''PREPROCESSOR_FLAGS'' = Some pf
    \<and> map_of (makefile_options c) ''COMPILER_FLAGS'' = Some cf
    \<and> map_of (makefile_options c) ''LINKER_FLAGS'' = Some lf
    \<and> map_of (makefile_options c) ''LIBRARY_FLAGS'' = Some lb
    \<and> map_of (definitions c) ''COMPILER_FLAGS'' = Some (pf @ '' '' @ cf @ '' '' @ lf @ '' '' @ lb))"
proof -
  have 1: "parse_args [] (no_options\<lparr>opt_cxx := Some ''cray''\<rparr>)
      = Inr (default_args\<lparr>arg_cxx := ''cray''\<rparr>)"
    by (simp add: parse_args_def check_choice_def no_options_def default_args_def
        cxx_choices_def)
  have 2: "check_compatibility (set_default_flux (default_args\<lparr>arg_cxx := ''cray''\<rparr>)) = Inr ()"
    by (simp add: check_compatibility_def set_default_flux_def default_args_def)
  from aggregate_flags_order [OF 1 2] obtain c pf cf lf lb where
    "resolve (set_default_flux (default_args\<lparr>arg_cxx := ''cray''\<rparr>)) = Inr c"
    "map_of (makefile_options c) ''PREPROCESSOR_FLAGS'' = Some pf"
    "map_of (makefile_options c) ''COMPILER_FLAGS'' = Some cf"
    "map_of (makefile_options c) ''LINKER_FLAGS'' = Some lf"
    "map_of (makefile_options c) ''LIBRARY_FLAGS'' = Some lb"
    "map_of (definitions c) ''COMPILER_FLAGS'' = Some (join '' '' [pf, cf, lf, lb])"
    "join '' '' [pf, cf, lf, lb] = pf @ '' '' @ cf @ '' '' @ lf @ '' '' @ lb"
    by blast
  with 1 2 show ?thesis by simp
qed

subsection \<open>The HDF5 path\<close>

text \<open>
  Claim C10. With \<^verbatim>\<open>-hdf5\<close> and a non-empty \<^verbatim>\<open>--hdf5_path\<close>, the final
  \<^verbatim>\<open>PREPROCESSOR_FLAGS\<close> and \<^verbatim>\<open>LINKER_FLAGS\<close> begin with the string the
  \<^verbatim>\<open>--cxx\<close> block had bound, followed at once, with no space, by
  \<^verbatim>\<open>-I<path>/include\<close> and \<^verbatim>\<open>-L<path>/lib\<close>. For cray,
  \<^verbatim>\<open>LINKER_FLAGS\<close> is \<^verbatim>\<open>-hwp -hpl=obj/lib-L<path>/lib\<close>, followed by the
  \<^verbatim>\<open>--lib\<close> paths if there are any.
\<close>

theorem hdf5_path_appended_without_space:
  assumes "arg_cxx a \<in> set cxx_choices" and "arg_hdf5 a" and "arg_hdf5_path a \<noteq> []"
  shows "\<exists>c pf lf. resolve a = Inr c
    \<and> map_of (makefile_options c) ''PREPROCESSOR_FLAGS'' = Some pf
    \<and> map_of (makefile_options c) ''LINKER_FLAGS'' = Some lf
    \<and> (\<forall>c0 c1 pf0 lf0. set_cxx a c0 = Inr c1
          \<and> map_of (makefile_options c1) ''PREPROCESSOR_FLAGS'' = Some pf0
          \<and> map_of (makefile_options c1) ''LINKER_FLAGS'' = Some lf0 \<longrightarrow>
          prefix (pf0 @ ''-I'' @ arg_hdf5_path a @ ''/include'') pf
          \<and> prefix (lf0 @ ''-L'' @ arg_hdf5_path a @ ''/lib'') lf)
    \<and> (arg_cxx a = ''cray'' \<longrightarrow>
          pf = ''-I'' @ arg_hdf5_path a @ ''/include''
          \<and> lf = ''-hwp -hpl=obj/lib'' @ ''-L'' @ arg_hdf5_path a @ ''/lib''
                 @ concat (map (\<lambda>l. '' -L'' @ l) (arg_lib a)))"
proof -
  from resolve_run [OF assms(1)] obtain c where
    run: "resolve a = Inr c"
    and pf: "map_of (makefile_options c) ''PREPROCESSOR_FLAGS'' = Some (preprocessor_flags a)"
    and lf: "map_of (makefile_options c) ''LINKER_FLAGS'' = Some (linker_flags a)"
    by blast
  have pre: "prefix (pf0 @ ''-I'' @ arg_hdf5_path a @ ''/include'') (preprocessor_flags a)
      \<and> prefix (lf0 @ ''-L'' @ arg_hdf5_path a @ ''/lib'') (linker_flags a)"
    if "set_cxx a c0 = Inr c1" "map_of (makefile_options c1) ''PREPROCESSOR_FLAGS'' = Some pf0"
      "map_of (makefile_options c1) ''LINKER_FLAGS'' = Some lf0"
    for c0 c1 pf0 lf0
  proof -
    from set_cxx_run [OF assms(1), of c0] that
    have "pf0 = []" "lf0 = cxx_linker_flags (arg_cxx a)" by auto
    with assms show ?thesis
      by (simp add: preprocessor_flags_def hdf5_preprocessor_flags_def linker_flags_def
          hdf5_linker_flags_def)
  qed
  have cray: "arg_cxx a = ''cray'' \<longrightarrow>
          preprocessor_flags a = ''-I'' @ arg_hdf5_path a @ ''/include''
          \<and> linker_flags a = ''-hwp -hpl=obj/lib'' @ ''-L'' @ arg_hdf5_path a @ ''/lib''
                 @ concat (map (\<lambda>l. '' -L'' @ l) (arg_lib a))"
    using assms
    by (simp add: preprocessor_flags_def hdf5_preprocessor_flags_def linker_flags_def
          hdf5_linker_flags_def cxx_linker_flags_def)
  from run pf lf pre cray show ?thesis by blast
qed

theorem hdf5_path_appended_without_space_witness:
  "arg_cxx cray_hdf5_args \<in> set cxx_choices \<and> arg_hdf5 cray_hdf5_args
   \<and> arg_hdf5_path cray_hdf5_args \<noteq> []
   \<and> (\<exists>c. resolve cray_hdf5_args = Inr c
        \<and> map_of (makefile_options c) ''PREPROCESSOR_FLAGS'' = Some ''-I/opt/hdf5/include''
        \<and> map_of (makefile_options c) ''LINKER_FLAGS''
            = Some ''-hwp -hpl=obj/lib-L/opt/hdf5/lib'')"
proof -
  have h: "arg_cxx cray_hdf5_args \<in> set cxx_choices" "arg_hdf5 cray_hdf5_args"
    "arg_hdf5_path cray_hdf5_args \<noteq> []"
    by (simp_all add: cray_hdf5_args_def default_args_def cxx_choices_def)
  from hdf5_path_appended_without_space [OF h] obtain c pf lf where
    "resolve cray_hdf5_args = Inr c"
    "map_of (makefile_options c) ''PREPROCESSOR_FLAGS'' = Some pf"
    "map_of (makefile_options c) ''LINKER_FLAGS'' = Some lf"
    "arg_cxx cray_hdf5_args = ''cray'' \<longrightarrow>
          pf = ''-I'' @ arg_hdf5_path cray_hdf5_args @ ''/include''
          \<and> lf = ''-hwp -hpl=obj/lib'' @ ''-L'' @ arg_hdf5_path cray_hdf5_args @ ''/lib''
                 @ concat (map (\<lambda>l. '' -L'' @ l) (arg_lib cray_hdf5_args))"
    by blast
  with h show ?thesis
    by (simp add: cray_hdf5_args_def default_args_def)
qed

section \<open>The whole run\<close>

subsection \<open>Rejected options leave the files alone\<close>

text \<open>
  Claim C9. When the parser rejects the command line, or the options violate one of the
  nine rules, the run ends with that error and the file system is the one it started
  with: no file was opened, none was written.
\<close>

theorem rejected_before_any_write:
  "(parse_args pgen cl = Inl e \<longrightarrow> configure pgen cl fs = (Inl e, fs))
   \<and> (parse_args pgen cl = Inr p
        \<and> first_violated compat_rules (set_default_flux p) = Some m \<longrightarrow>
        configure pgen cl fs = (Inl (SystemExit m), fs))"
  by (simp add: configure_def check_compatibility_rules)

theorem rejected_before_any_write_witness:
  "parse_args [] (no_options\<lparr>opt_eos := Some ''ideal''\<rparr>) = Inl ParseError
   \<and> configure [] (no_options\<lparr>opt_eos := Some ''ideal''\<rparr>) empty_fs = (Inl ParseError, empty_fs)
   \<and> parse_args [] (no_options\<lparr>opt_g := True\<rparr>) = Inr (default_args\<lparr>arg_g := True\<rparr>)
   \<and> first_violated compat_rules (set_default_flux (default_args\<lparr>arg_g := True\<rparr>))
       = Some ''### CONFIGURE ERROR: GR cannot be used with cartesian coordinates''
   \<and> configure [] (no_options\<lparr>opt_g := True\<rparr>) empty_fs
       = (Inl (SystemExit ''### CONFIGURE ERROR: GR cannot be used with cartesian coordinates''),
          empty_fs)"
proof -
  have 1: "parse_args [] (no_options\<lparr>opt_eos := Some ''ideal''\<rparr>) = Inl ParseError"
    by (simp add: parse_args_def check_choice_def no_options_def eos_choices_def)
  have 2: "parse_args [] (no_options\<lparr>opt_g := True\<rparr>) = Inr (default_args\<lparr>arg_g := True\<rparr>)"
    by (simp add: parse_args_def check_choice_def no_options_def default_args_def)
  have 3: "first_violated compat_rules (set_default_flux (default_args\<lparr>arg_g := True\<rparr>))
       = Some ''### CONFIGURE ERROR: GR cannot be used with cartesian coordinates''"
    by (simp add: compat_rules_def rule_defs msg_defs set_default_flux_def default_args_def)
  from rejected_before_any_write [of "[]" "no_options\<lparr>opt_eos := Some ''ideal''\<rparr>" ParseError
      empty_fs]
    rejected_before_any_write [of "[]" "no_options\<lparr>opt_g := True\<rparr>" _ empty_fs
      "default_args\<lparr>arg_g := True\<rparr>"
      "''### CONFIGURE ERROR: GR cannot be used with cartesian coordinates''"]
    1 2 3
  show ?thesis by simp
qed

section \<open>Template substitution\<close>

subsection \<open>One pass of the loop\<close>

lemma expand_template_plain:
  "CHR 0x5C \<notin> set v \<Longrightarrow> expand_template whole v = Inr v"
  by (induction v) auto

lemma re_sub_plain:
  "CHR 0x5C \<notin> set v \<Longrightarrow> re_sub pat v text = Inr (replace_all pat v text)"
  by (simp add: re_sub_def expand_template_plain)

lemma replace_all_match:
  "replace_all (CHR ''@'' # k) r (CHR ''@'' # k @ rest) = r @ replace_all (CHR ''@'' # k) r rest"
  by simp

lemma ident_not_at: "list_all ident_char k \<Longrightarrow> CHR ''@'' \<notin> set k"
  by (auto simp: list_all_iff ident_char_def ascii_letter_def dec_digit_def)

lemma ident_not_separator: "list_all ident_char k \<Longrightarrow> \<not> list_ex separator k"
  by (auto simp: list_all_iff list_ex_iff separator_def)

lemma name_prefix_eq:
  assumes "CHR ''@'' \<notin> set k" and "CHR ''@'' \<notin> set n"
    and "prefix (k @ ''@'') (n @ CHR ''@'' # rest)"
  shows "k = n"
proof -
  from assms(3) obtain zs where "n @ CHR ''@'' # rest = (k @ ''@'') @ zs"
    by (auto simp: prefix_def)
  then have "takeWhile (\<lambda>c. c \<noteq> CHR ''@'') (n @ CHR ''@'' # rest)
      = takeWhile (\<lambda>c. c \<noteq> CHR ''@'') (k @ CHR ''@'' # zs)"
    by simp
  moreover from assms(1,2) have "\<forall>c\<in>set k. c \<noteq> CHR ''@''" "\<forall>c\<in>set n. c \<noteq> CHR ''@''"
    by auto
  ultimately show ?thesis
    by (simp add: takeWhile_append2)
qed

lemma separated_mono: "separated b ps \<Longrightarrow> (b \<Longrightarrow> b') \<Longrightarrow> separated b' ps"
proof (induction ps arbitrary: b b')
  case Nil
  show ?case by simp
next
  case (Cons p ps)
  show ?case
  proof (cases p)
    case (Lit s)
    with Cons.prems have "CHR ''@'' \<notin> set s" "separated (b \<or> list_ex separator s) ps"
      by simp_all
    moreover from this(2) have "separated (b' \<or> list_ex separator s) ps"
      by (rule Cons.IH) (use Cons.prems(2) in blast)
    ultimately show ?thesis using Lit by simp
  next
    case (Ph n)
    with Cons.prems show ?thesis by auto
  next
    case At
    with Cons.prems show ?thesis by auto
  qed
qed

lemma no_name_after_at:
  "separated False ps \<Longrightarrow> list_all ident_char k \<Longrightarrow> \<not> prefix (k @ ''@'') (render ps)"
proof (induction ps arbitrary: k)
  case Nil
  show ?case by (simp add: render_def)
next
  case (Cons p ps)
  show ?case
  proof (cases p)
    case (Lit s)
    from Cons.prems(1) Lit have s: "CHR ''@'' \<notin> set s"
      and rest: "separated (list_ex separator s) ps"
      by simp_all
    show ?thesis
    proof
      assume "prefix (k @ ''@'') (render (p # ps))"
      then have "prefix (k @ ''@'') (s @ render ps)"
        by (simp add: Lit render_def)
      then consider "prefix (k @ ''@'') s"
        | us where "k @ ''@'' = s @ us" "prefix us (render ps)"
        by (auto simp: prefix_append)
      then show False
      proof cases
        case 1
        then have "set (k @ ''@'') \<subseteq> set s" by (rule set_mono_prefix)
        with s show False by simp
      next
        case 2
        show False
        proof (cases us rule: rev_cases)
          case Nil
          with 2(1) have "s = k @ ''@''" by simp
          with s show False by simp
        next
          case (snoc us' c)
          with 2(1) have k: "k = s @ us'" and c: "c = CHR ''@''" by simp_all
          from Cons.prems(2) k have "list_all ident_char s" "list_all ident_char us'"
            by simp_all
          from ident_not_separator [OF this(1)] rest have "separated False ps" by simp
          from Cons.IH [OF this \<open>list_all ident_char us'\<close>] 2(2) snoc c
          show False by simp
        qed
      qed
    qed
  next
    case (Ph n)
    with Cons.prems show ?thesis by simp
  next
    case At
    with Cons.prems show ?thesis by simp
  qed
qed

lemma separated_fill:
  assumes v: "CHR ''@'' \<notin> set v"
  shows "separated b ps \<Longrightarrow> separated b (map (fill_one k v) ps)"
proof (induction ps arbitrary: b)
  case Nil
  show ?case by simp
next
  case (Cons p ps)
  show ?case
  proof (cases p)
    case (Lit s)
    with Cons show ?thesis by simp
  next
    case At
    with Cons show ?thesis by simp
  next
    case (Ph n)
    with Cons.prems have b: b and n: "CHR ''@'' \<notin> set n" and f: "separated False ps"
      by simp_all
    from Cons.IH [OF f] have f': "separated False (map (fill_one k v) ps)" .
    show ?thesis
    proof (cases "n = k")
      case True
      from f' have "separated (b \<or> list_ex separator v) (map (fill_one k v) ps)"
        by (rule separated_mono) simp
      with v show ?thesis by (simp add: Ph True)
    next
      case False
      with b n f' show ?thesis by (simp add: Ph)
    qed
  qed
qed

lemma fill_fill:
  "fill (map_of items) (fill_one k v p) = fill (map_of ((k, v) # items)) p"
  by (cases p) (auto split: option.splits)



lemma no_start_iff:
  "no_start pat s rest \<longleftrightarrow> (\<forall>i<length s. \<not> prefix pat (drop i (s @ rest)))"
proof (induction s)
  case Nil
  show ?case by simp
next
  case (Cons c cs)
  show ?case
  proof
    assume l: "no_start pat (c # cs) rest"
    show "\<forall>i<length (c # cs). \<not> prefix pat (drop i ((c # cs) @ rest))"
    proof (intro allI impI)
      fix i assume "i < length (c # cs)"
      with l Cons.IH show "\<not> prefix pat (drop i ((c # cs) @ rest))"
        by (cases i) auto
    qed
  next
    assume r: "\<forall>i<length (c # cs). \<not> prefix pat (drop i ((c # cs) @ rest))"
    from r [rule_format, of 0] have 0: "\<not> prefix pat (c # cs @ rest)" by simp
    have "\<forall>i<length cs. \<not> prefix pat (drop i (cs @ rest))"
    proof (intro allI impI)
      fix i assume "i < length cs"
      with r [rule_format, of "Suc i"] show "\<not> prefix pat (drop i (cs @ rest))" by simp
    qed
    with Cons.IH 0 show "no_start pat (c # cs) rest" by simp
  qed
qed

lemma replace_all_no_start:
  "pat \<noteq> [] \<Longrightarrow> no_start pat s rest \<Longrightarrow>
     replace_all pat v (s @ rest) = s @ replace_all pat v rest"
  by (induction s) auto

lemma fill_one_other: "p \<noteq> Ph k \<Longrightarrow> fill_one k v p = p"
  by (cases p) auto

lemma replace_all_placeholders:
  "only_placeholders k ps \<Longrightarrow>
     replace_all (''@'' @ k @ ''@'') v (render ps) = render (map (fill_one k v) ps)"
proof (induction ps)
  case Nil
  show ?case by (simp add: render_def)
next
  case (Cons p ps)
  from Cons.prems have rest: "only_placeholders k ps" by simp
  note ih = Cons.IH [OF rest]
  show ?case
  proof (cases "p = Ph k")
    case True
    have "replace_all (''@'' @ k @ ''@'') v (render (p # ps))
        = replace_all (CHR ''@'' # k @ ''@'') v (CHR ''@'' # (k @ ''@'') @ render ps)"
      by (simp add: True render_def)
    also have "\<dots> = v @ replace_all (CHR ''@'' # k @ ''@'') v (render ps)"
      by (rule replace_all_match)
    finally show ?thesis using ih by (simp add: True render_def)
  next
    case False
    with Cons.prems have "no_start (''@'' @ k @ ''@'') (render_piece p) (render ps)"
      by simp
    then have "replace_all (''@'' @ k @ ''@'') v (render_piece p @ render ps)
        = render_piece p @ replace_all (''@'' @ k @ ''@'') v (render ps)"
      by (intro replace_all_no_start) simp_all
    with ih False show ?thesis
      by (simp add: render_def fill_one_other del: replace_all.simps)
  qed
qed

lemma substitute_exact:
  assumes "\<forall>(k, v)\<in>set items. CHR 0x5C \<notin> set v"
  shows "tokens_exact items ps \<Longrightarrow>
     substitute items (render ps) = Inr (render (map (fill (map_of items)) ps))"
  using assms
proof (induction items arbitrary: ps)
  case Nil
  have "map (fill Map.empty) ps = ps"
    by (rule map_idI) (case_tac x; simp)
  then show ?case by simp
next
  case (Cons kv items)
  obtain k v where kv: "kv = (k, v)" by (cases kv)
  from Cons.prems(2) kv have bs: "CHR 0x5C \<notin> set v"
    and rest: "\<forall>(k, v)\<in>set items. CHR 0x5C \<notin> set v"
    by auto
  from Cons.prems(1) kv have only: "only_placeholders k ps"
    and exact: "tokens_exact items (map (fill_one k v) ps)"
    by simp_all
  have "substitute (kv # items) (render ps)
      = substitute items (replace_all (''@'' @ k @ ''@'') v (render ps))"
    by (simp add: kv re_sub_plain [OF bs] del: replace_all.simps)
  also have "\<dots> = substitute items (render (map (fill_one k v) ps))"
    by (simp only: replace_all_placeholders [OF only])
  also have "\<dots> = Inr (render (map (fill (map_of items)) (map (fill_one k v) ps)))"
    by (rule Cons.IH [OF exact rest])
  also have "map (fill (map_of items)) (map (fill_one k v) ps)
      = map (fill (map_of (kv # items))) ps"
    by (simp add: kv fill_fill del: map_of.simps)
  finally show ?case .
qed



subsection \<open>A condition on the template alone\<close>

lemma no_start_plain:
  "CHR ''@'' \<notin> set s \<Longrightarrow> no_start (CHR ''@'' # x) s rest"
  by (induction s) auto

lemma no_start_append:
  "no_start pat (s1 @ s2) rest \<longleftrightarrow> no_start pat s1 (s2 @ rest) \<and> no_start pat s2 rest"
  by (induction s1) auto

lemma separated_only_placeholders:
  assumes k: "list_all ident_char k"
  shows "separated b ps \<Longrightarrow> only_placeholders k ps"
proof (induction ps arbitrary: b)
  case Nil
  show ?case by simp
next
  case (Cons p ps)
  note at = ident_not_at [OF k]
  show ?case
  proof (cases p)
    case (Lit s)
    with Cons.prems have s: "CHR ''@'' \<notin> set s"
      and rest: "separated (b \<or> list_ex separator s) ps"
      by simp_all
    from no_start_plain [OF s] Cons.IH [OF rest] Lit show ?thesis by simp
  next
    case At
    with Cons.prems have f: "separated False ps" by simp
    from no_name_after_at [OF f k] Cons.IH [OF f] At show ?thesis by simp
  next
    case (Ph n)
    with Cons.prems have n: "CHR ''@'' \<notin> set n" and f: "separated False ps" by simp_all
    note ih = Cons.IH [OF f]
    show ?thesis
    proof (cases "n = k")
      case True
      with ih Ph show ?thesis by simp
    next
      case False
      have 1: "\<not> prefix (k @ ''@'') (n @ CHR ''@'' # render ps)"
        using name_prefix_eq [OF at n] False by blast
      have 2: "\<not> prefix (k @ ''@'') (render ps)"
        by (rule no_name_after_at [OF f k])
      have "no_start (CHR ''@'' # k @ ''@'') (n @ ''@'') (render ps)"
        unfolding no_start_append using no_start_plain [OF n] 2 by simp
      with 1 ih False Ph show ?thesis by simp
    qed
  qed
qed

lemma separated_tokens_exact:
  assumes "\<forall>(k, v)\<in>set items. list_all ident_char k \<and> CHR ''@'' \<notin> set v"
  shows "separated True ps \<Longrightarrow> tokens_exact items ps"
  using assms
proof (induction items arbitrary: ps)
  case Nil
  show ?case by simp
next
  case (Cons kv items)
  obtain k v where kv: "kv = (k, v)" by (cases kv)
  from Cons.prems(2) kv have k: "list_all ident_char k" and v: "CHR ''@'' \<notin> set v"
    and rest: "\<forall>(k, v)\<in>set items. list_all ident_char k \<and> CHR ''@'' \<notin> set v"
    by auto
  from separated_only_placeholders [OF k Cons.prems(1)]
    Cons.IH [OF separated_fill [OF v Cons.prems(1)] rest]
  show ?case by (simp add: kv)
qed

lemma separated_placeholders_filled:
  assumes "\<forall>(k, v)\<in>set items.
      list_all ident_char k \<and> CHR ''@'' \<notin> set v \<and> CHR 0x5C \<notin> set v"
    and "separated True ps"
  shows "substitute items (render ps) = Inr (render (map (fill (map_of items)) ps))"
proof -
  from assms(1) have a: "\<forall>(k, v)\<in>set items. list_all ident_char k \<and> CHR ''@'' \<notin> set v"
    and b: "\<forall>(k, v)\<in>set items. CHR 0x5C \<notin> set v"
    by auto
  from substitute_exact [OF b separated_tokens_exact [OF a assms(2)]] show ?thesis .
qed

lemmas char_class_defs = ident_char_def ascii_letter_def dec_digit_def separator_def


subsection \<open>The keys of the script are names\<close>

lemma resolved_keys_are_names:
  assumes "arg_cxx a \<in> set cxx_choices" and "resolve a = Inr c"
  shows "\<forall>k \<in> fst ` set (definitions c) \<union> fst ` set (makefile_options c).
           list_all ident_char k"
proof -
  from resolve_run [OF assms(1)] obtain c' where "resolve a = Inr c'"
    and "dom (map_of (makefile_options c')) = set [''LOADER_FLAGS'', ''PROBLEM_FILE'',
         ''COORDINATES_FILE'', ''EOS_FILE'', ''RSOLVER_FILE'', ''RECONSTRUCT_FILE'',
         ''HYDRO_INT_FILE'', ''RSOLVER_DIR'', ''COMPILER_COMMAND'', ''PREPROCESSOR_FLAGS'',
         ''COMPILER_FLAGS'', ''LINKER_FLAGS'', ''LIBRARY_FLAGS'']"
    and "dom (map_of (definitions c')) \<subseteq> set [''PROBLEM'', ''COORDINATE_SYSTEM'',
         ''NON_BAROTROPIC_EOS'', ''NHYDRO_VARIABLES'', ''RSOLVER'', ''RECONSTRUCT'',
         ''HYDRO_INTEGRATOR'', ''MAGNETIC_FIELDS_ENABLED'', ''NFIELD_VARIABLES'',
         ''NWAVE_VALUE'', ''RELATIVISTIC_DYNAMICS'', ''GENERAL_RELATIVITY'',
         ''FRAME_TRANSFORMATIONS'', ''SHEARING_BOX'', ''COMPILER_CHOICE'',
         ''COMPILER_COMMAND'', ''DEBUG'', ''MPI_OPTION'', ''OPENMP_OPTION'', ''HDF5_OPTION'',
         ''COMPILER_FLAGS'']"
    by blast
  with assms(2)
  have m: "dom (map_of (makefile_options c)) = set [''LOADER_FLAGS'', ''PROBLEM_FILE'',
         ''COORDINATES_FILE'', ''EOS_FILE'', ''RSOLVER_FILE'', ''RECONSTRUCT_FILE'',
         ''HYDRO_INT_FILE'', ''RSOLVER_DIR'', ''COMPILER_COMMAND'', ''PREPROCESSOR_FLAGS'',
         ''COMPILER_FLAGS'', ''LINKER_FLAGS'', ''LIBRARY_FLAGS'']"
    and d: "dom (map_of (definitions c)) \<subseteq> set [''PROBLEM'', ''COORDINATE_SYSTEM'',
         ''NON_BAROTROPIC_EOS'', ''NHYDRO_VARIABLES'', ''RSOLVER'', ''RECONSTRUCT'',
         ''HYDRO_INTEGRATOR'', ''MAGNETIC_FIELDS_ENABLED'', ''NFIELD_VARIABLES'',
         ''NWAVE_VALUE'', ''RELATIVISTIC_DYNAMICS'', ''GENERAL_RELATIVITY'',
         ''FRAME_TRANSFORMATIONS'', ''SHEARING_BOX'', ''COMPILER_CHOICE'',
         ''COMPILER_COMMAND'', ''DEBUG'', ''MPI_OPTION'', ''OPENMP_OPTION'', ''HDF5_OPTION'',
         ''COMPILER_FLAGS'']"
    by simp_all
  have 1: "\<forall>k\<in>set [''LOADER_FLAGS'', ''PROBLEM_FILE'',
         ''COORDINATES_FILE'', ''EOS_FILE'', ''RSOLVER_FILE'', ''RECONSTRUCT_FILE'',
         ''HYDRO_INT_FILE'', ''RSOLVER_DIR'', ''COMPILER_COMMAND'', ''PREPROCESSOR_FLAGS'',
         ''COMPILER_FLAGS'', ''LINKER_FLAGS'', ''LIBRARY_FLAGS'']. list_all ident_char k"
    by (simp add: char_class_defs)
  have 2: "\<forall>k\<in>set [''PROBLEM'', ''COORDINATE_SYSTEM'',
         ''NON_BAROTROPIC_EOS'', ''NHYDRO_VARIABLES'', ''RSOLVER'', ''RECONSTRUCT'',
         ''HYDRO_INTEGRATOR'', ''MAGNETIC_FIELDS_ENABLED'', ''NFIELD_VARIABLES'',
         ''NWAVE_VALUE'', ''RELATIVISTIC_DYNAMICS'', ''GENERAL_RELATIVITY'',
         ''FRAME_TRANSFORMATIONS'', ''SHEARING_BOX'', ''COMPILER_CHOICE'',
         ''COMPILER_COMMAND'', ''DEBUG'', ''MPI_OPTION'', ''OPENMP_OPTION'', ''HDF5_OPTION'',
         ''COMPILER_FLAGS'']. list_all ident_char k"
    by (simp add: char_class_defs)
  from m have m': "fst ` set (makefile_options c) = set [''LOADER_FLAGS'', ''PROBLEM_FILE'',
         ''COORDINATES_FILE'', ''EOS_FILE'', ''RSOLVER_FILE'', ''RECONSTRUCT_FILE'',
         ''HYDRO_INT_FILE'', ''RSOLVER_DIR'', ''COMPILER_COMMAND'', ''PREPROCESSOR_FLAGS'',
         ''COMPILER_FLAGS'', ''LINKER_FLAGS'', ''LIBRARY_FLAGS'']"
    by (simp only: dom_map_of_conv_image_fst)
  from d have d': "fst ` set (definitions c) \<subseteq> set [''PROBLEM'', ''COORDINATE_SYSTEM'',
         ''NON_BAROTROPIC_EOS'', ''NHYDRO_VARIABLES'', ''RSOLVER'', ''RECONSTRUCT'',
         ''HYDRO_INTEGRATOR'', ''MAGNETIC_FIELDS_ENABLED'', ''NFIELD_VARIABLES'',
         ''NWAVE_VALUE'', ''RELATIVISTIC_DYNAMICS'', ''GENERAL_RELATIVITY'',
         ''FRAME_TRANSFORMATIONS'', ''SHEARING_BOX'', ''COMPILER_CHOICE'',
         ''COMPILER_COMMAND'', ''DEBUG'', ''MPI_OPTION'', ''OPENMP_OPTION'', ''HDF5_OPTION'',
         ''COMPILER_FLAGS'']"
    by (simp only: dom_map_of_conv_image_fst)
  have "\<forall>k \<in> fst ` set (makefile_options c). list_all ident_char k"
    unfolding m' by (rule 1)
  moreover from 2 d' have "\<forall>k \<in> fst ` set (definitions c). list_all ident_char k"
    by (meson subsetD)
  ultimately show ?thesis by blast
qed

text \<open>A value with a backslash is not inserted as it stands: two backslashes become one.\<close>

lemma backslash_value_is_rewritten:
  "substitute [(''COMPILER_COMMAND'', [CHR 0x5C, CHR 0x5C])] ''@COMPILER_COMMAND@''
     = Inr [CHR 0x5C]"
  by (simp add: re_sub_def simple_escape_def dec_digit_def)

subsection \<open>Placeholders that share an \<^verbatim>\<open>@\<close>\<close>


text \<open>
  The template of this example, read as two placeholders of \<^verbatim>\<open>DEBUG\<close> around the
  text \<^verbatim>\<open>PROBLEM\<close>, is one that \<open>tokens_exact\<close> excludes.
\<close>

lemma shared_delimiter_not_exact:
  "\<not> tokens_exact (definitions default_config) [Ph ''DEBUG'', Lit ''PROBLEM'', Ph ''DEBUG'']"
  by (simp add: default_config_def render_def)

subsection \<open>Placeholders are filled\<close>



end
